theory Spec2Isabelle
  imports Complex_Main "HOL-Library.Sublist"
begin

section \<open>Backend responses\<close>

text \<open>
  Every call of the Supabase client resolves to an object with the fields \<open>data\<close> and
  \<open>error\<close>; it never throws. An error object is given by its \<open>message\<close> property, which
  can be absent or any text, the empty one included. The services hand \<open>error?.message\<close> to
  the pages, and the pages test it for truthiness. \<open>None\<close> stands for \<open>null\<close> and
  \<open>undefined\<close>.
\<close>

datatype pg_error = PgError "string option"

record 'a pg_result =
  data :: "'a option"
  error :: "pg_error option"

text \<open>\<open>error?.message\<close>.\<close>

definition error_message :: "pg_error option \<Rightarrow> string option" where
  "error_message err = (case err of None \<Rightarrow> None | Some (PgError m) \<Rightarrow> m)"

text \<open>The test \<open>if (error)\<close> on such a message: \<open>undefined\<close> and the empty text are falsy.\<close>

definition truthy :: "string option \<Rightarrow> bool" where
  "truthy m = (case m of None \<Rightarrow> False | Some t \<Rightarrow> t \<noteq> [])"

text \<open>The text of a message inside a template literal or as the shown error.\<close>

definition message_text :: "string option \<Rightarrow> string" where
  "message_text m = (case m of None \<Rightarrow> ''undefined'' | Some t \<Rightarrow> t)"

section \<open>Text helpers\<close>

text \<open>
  A string is a list of characters, one per code unit below 256. \<open>trim\<close> removes the white
  space and line terminators of \<open>String.prototype.trim\<close> in that range; \<open>split_on\<close> is
  \<open>split\<close> with a one-character separator, which always yields at least one part.
\<close>

definition is_ws :: "char \<Rightarrow> bool" where
  "is_ws c = (of_char c \<in> {9, 10, 11, 12, 13, 32, 160 :: nat})"

definition trim :: "string \<Rightarrow> string" where
  "trim s = rev (dropWhile is_ws (rev (dropWhile is_ws s)))"

fun split_on :: "char \<Rightarrow> string \<Rightarrow> string list" where
  "split_on c [] = [[]]"
| "split_on c (x # xs) =
     (if x = c then [] # split_on c xs
      else (case split_on c xs of
              [] \<Rightarrow> [[x]]
            | p # ps \<Rightarrow> (x # p) # ps))"

definition is_digit :: "char \<Rightarrow> bool" where
  "is_digit c = (48 \<le> (of_char c :: nat) \<and> (of_char c :: nat) \<le> 57)"

definition digit_val :: "char \<Rightarrow> nat" where
  "digit_val c = of_char c - 48"

definition digits_val :: "string \<Rightarrow> nat" where
  "digits_val ds = foldl (\<lambda>a c. 10 * a + digit_val c) 0 ds"

text \<open>The decimal text a template literal gives for an integral number.\<close>

fun decimal_digits :: "nat \<Rightarrow> string \<Rightarrow> string" where
  "decimal_digits n acc =
     (if n < 10 then char_of (48 + n) # acc
      else decimal_digits (n div 10) (char_of (48 + n mod 10) # acc))"

definition number_text :: "int \<Rightarrow> string" where
  "number_text i =
     (if i < 0 then CHR ''-'' # decimal_digits (nat (- i)) [] else decimal_digits (nat i) [])"

section \<open>Objects and the two naming conventions\<close>

text \<open>An object: its entries in insertion order, each key once.\<close>

type_synonym 'v obj = "(string \<times> 'v) list"

fun obj_set :: "string \<Rightarrow> 'v \<Rightarrow> 'v obj \<Rightarrow> 'v obj" where
  "obj_set k v [] = [(k, v)]"
| "obj_set k v ((k', v') # r) = (if k = k' then (k, v) # r else (k', v') # obj_set k v r)"

text \<open>
  \<open>toSnakeCase\<close>: every letter \<open>A\<close> to \<open>Z\<close> of a key becomes an underscore and the
  lower-case letter; the entries are set one by one on a new object.
\<close>

definition is_upper :: "char \<Rightarrow> bool" where
  "is_upper c = (65 \<le> (of_char c :: nat) \<and> (of_char c :: nat) \<le> 90)"

definition is_lower :: "char \<Rightarrow> bool" where
  "is_lower c = (97 \<le> (of_char c :: nat) \<and> (of_char c :: nat) \<le> 122)"

definition snake_key :: "string \<Rightarrow> string" where
  "snake_key k =
     concat (map (\<lambda>c. if is_upper c then [CHR ''_'', char_of (of_char c + 32 :: nat)] else [c]) k)"

definition toSnakeCase :: "'v obj \<Rightarrow> 'v obj" where
  "toSnakeCase ob = fold (\<lambda>(k, v) newObj. obj_set (snake_key k) v newObj) ob []"

text \<open>
  \<open>toCamelCase\<close>: every underscore followed by a letter \<open>a\<close> to \<open>z\<close> becomes the upper-case
  letter, from left to right.
\<close>

fun camel_key :: "string \<Rightarrow> string" where
  "camel_key (c # d # r) =
     (if c = CHR ''_'' \<and> is_lower d then char_of (of_char d - 32 :: nat) # camel_key r
      else c # camel_key (d # r))"
| "camel_key k = k"

definition toCamelCase :: "'v obj \<Rightarrow> 'v obj" where
  "toCamelCase ob = fold (\<lambda>(k, v) newObj. obj_set (camel_key k) v newObj) ob []"

section \<open>Users and the points ledger (supabaseService.ts)\<close>

record user =
  user_id :: string
  email :: string
  firstName :: string
  lastName :: string
  points :: int

text \<open>A row of the table \<open>users\<close>, in the store's naming convention.\<close>

record users_row =
  row_id :: string
  first_name :: string
  last_name :: string
  row_email :: string

text \<open>A row of \<open>user_points\<close> as selected by \<open>select('points')\<close>; the column may be null.\<close>

record points_row =
  row_points :: "int option"

text \<open>The health profile is an object of named text fields.\<close>

type_synonym health = "string obj"

text \<open>
  \<open>getPoints\<close>: \<open>if (error || !data) return 0; return data.points ?? 0\<close>, applied to the
  response of the \<open>single()\<close> read of the user's ledger row.
\<close>

definition getPoints :: "points_row pg_result \<Rightarrow> int" where
  "getPoints r =
     (if error r \<noteq> None \<or> data r = None then 0
      else (case data r of
              None \<Rightarrow> 0
            | Some row \<Rightarrow> (case row_points row of None \<Rightarrow> 0 | Some p \<Rightarrow> p)))"

text \<open>
  The ledger itself maps a user id to the stored value. A \<open>single()\<close> read answers with an
  error when the request fails and also when no row matches; \<open>read_err\<close> is the failure of
  the request, if any.
\<close>

type_synonym ledger = "string \<rightharpoonup> int"

definition select_points_single :: "ledger \<Rightarrow> string \<Rightarrow> pg_error option \<Rightarrow> points_row pg_result" where
  "select_points_single l uid read_err =
     (case read_err of
        Some e \<Rightarrow> \<lparr>data = None, error = Some e\<rparr>
      | None \<Rightarrow>
          (case l uid of
             None \<Rightarrow>
               \<lparr>data = None,
                error = Some (PgError (Some ''JSON object requested, multiple (or no) rows returned''))\<rparr>
           | Some p \<Rightarrow> \<lparr>data = Some \<lparr>row_points = Some p\<rparr>, error = None\<rparr>))"

text \<open>Renaming of the keys \<open>first_name\<close>, \<open>last_name\<close> by \<open>toCamelCase\<close>, then \<open>{..., points}\<close>.\<close>

definition toCamelCase_user :: "users_row \<Rightarrow> int \<Rightarrow> user" where
  "toCamelCase_user r p =
     \<lparr>user_id = row_id r, email = row_email r, firstName = first_name r,
      lastName = last_name r, points = p\<rparr>"

record profile_result =
  profile_user :: "user option"
  profile_health :: "health option"
  profile_error :: "string option"

text \<open>
  \<open>getFullUserProfile\<close>, on the responses of its three reads: the \<open>users\<close> row, the health
  profile (its error is not read) and the ledger row. The \<open>single()\<close> read of \<open>users\<close>
  answers with the row (\<open>Inr\<close>) or with an error (\<open>Inl\<close>).
\<close>

definition getFullUserProfile ::
  "pg_error + users_row \<Rightarrow> health pg_result \<Rightarrow> points_row pg_result \<Rightarrow> profile_result" where
  "getFullUserProfile userRes healthRes pointsRes =
     (case userRes of
        Inl userError \<Rightarrow>
          \<lparr>profile_user = None, profile_health = None,
           profile_error = error_message (Some userError)\<rparr>
      | Inr userProfile \<Rightarrow>
          \<lparr>profile_user = Some (toCamelCase_user userProfile (getPoints pointsRes)),
           profile_health = map_option toCamelCase (data healthRes),
           profile_error = None\<rparr>)"

section \<open>One-time passcodes (supabaseService.ts, AuthPage)\<close>

text \<open>The process-wide cache \<open>otpCache\<close>: email to expected code.\<close>

type_synonym otp_cache = "string \<rightharpoonup> string"

definition verifyOtp :: "otp_cache \<Rightarrow> string \<Rightarrow> string \<Rightarrow> bool \<times> otp_cache" where
  "verifyOtp cache em code =
     (let storedOtp = cache em;
          isValid = (Some code = storedOtp \<or> code = ''123456'')
      in (isValid, if isValid then cache(em := None) else cache))"

datatype auth_view = Login | Otp | Signup | HealthDetails

text \<open>
  The state the verification handler works on: the form of the page, the cache, the session
  held by the Supabase auth client (\<open>getSession\<close>, \<open>signOut\<close>) and the application's
  authenticated profile.
\<close>

record auth_state =
  view :: auth_view
  form_email :: string
  form_otp :: string
  form_error :: string
  otpCache :: otp_cache
  backend_session :: "string option"
  logged_in :: "(user \<times> health option) option"

text \<open>
  Modelled from the spec: \<open>auth.login\<close> of the application context (App, not among the
  sources) makes the session Authenticated by storing the loaded profile.
\<close>

definition auth_login :: "user \<Rightarrow> health option \<Rightarrow> auth_state \<Rightarrow> auth_state" where
  "auth_login u h s = s\<lparr>logged_in := Some (u, h)\<rparr>"

text \<open>\<open>supabase.auth.signOut()\<close> ends the session of the auth client.\<close>

definition signOut :: "auth_state \<Rightarrow> auth_state" where
  "signOut s = s\<lparr>backend_session := None\<rparr>"

text \<open>
  \<open>handleOtpVerification\<close>. The three responses are those of the profile reads for the
  user of the current session. The profile is used when \<open>fullUser && !profileError\<close>;
  otherwise \<open>profileError || "Could not retrieve user profile."\<close> is shown.
\<close>

definition handleOtpVerification ::
  "pg_error + users_row \<Rightarrow> health pg_result \<Rightarrow> points_row pg_result \<Rightarrow> auth_state \<Rightarrow> auth_state" where
  "handleOtpVerification userRes healthRes pointsRes s0 =
     (let s = s0\<lparr>form_error := ''''\<rparr>;
          (isValid, cache') = verifyOtp (otpCache s) (form_email s) (form_otp s);
          s1 = s\<lparr>otpCache := cache'\<rparr>
      in if \<not> isValid then signOut (s1\<lparr>form_error := ''Invalid OTP.''\<rparr>)
         else (case backend_session s1 of
                 None \<Rightarrow> s1\<lparr>form_error := ''Session expired. Please log in again.'', view := Login\<rparr>
               | Some sid \<Rightarrow>
                   (let p = getFullUserProfile userRes healthRes pointsRes;
                        profileError = profile_error p
                    in (case profile_user p of
                          Some fullUser \<Rightarrow>
                            (if \<not> truthy profileError then auth_login fullUser (profile_health p) s1
                             else signOut (s1\<lparr>form_error := message_text profileError\<rparr>))
                        | None \<Rightarrow>
                            signOut (s1\<lparr>form_error :=
                                          (if truthy profileError then message_text profileError
                                           else ''Could not retrieve user profile.'')\<rparr>)))))"

section \<open>Goals from the webhook (fetchHealthGoalsFromN8n)\<close>

datatype category = Diet | Exercise | MentalHealth | General

datatype difficulty = Easy | Medium | Hard

record new_goal =
  goal :: string
  category :: category
  difficulty :: difficulty

definition validCategories :: "string list" where
  "validCategories = [''Diet'', ''Exercise'', ''Mental Health'', ''General'']"

definition validDifficulties :: "string list" where
  "validDifficulties = [''Easy'', ''Medium'', ''Hard'']"

text \<open>The type assertions \<open>as Recommendation['category']\<close> and \<open>['difficulty']\<close>.\<close>

definition category_of_string :: "string \<Rightarrow> category option" where
  "category_of_string s =
     (if s = ''Diet'' then Some Diet
      else if s = ''Exercise'' then Some Exercise
      else if s = ''Mental Health'' then Some MentalHealth
      else if s = ''General'' then Some General
      else None)"

definition difficulty_of_string :: "string \<Rightarrow> difficulty option" where
  "difficulty_of_string s =
     (if s = ''Easy'' then Some Easy
      else if s = ''Medium'' then Some Medium
      else if s = ''Hard'' then Some Hard
      else None)"

text \<open>
  The callback of \<open>lines.map\<close>: \<open>None\<close> is the \<open>null\<close> returned for a skipped line. The
  category and the difficulty are checked as they stand and trimmed afterwards.
\<close>

definition parse_line :: "string \<Rightarrow> new_goal option" where
  "parse_line line =
     (case split_on CHR '';'' line of
        [g, c, d] \<Rightarrow>
          (if c \<notin> set validCategories \<or> d \<notin> set validDifficulties then None
           else (case (category_of_string (trim c), difficulty_of_string (trim d)) of
                   (Some c', Some d') \<Rightarrow> Some \<lparr>goal = trim g, category = c', difficulty = d'\<rparr>
                 | _ \<Rightarrow> None))
      | _ \<Rightarrow> None)"

definition goal_lines :: "string \<Rightarrow> string list" where
  "goal_lines text = filter (\<lambda>line. length line > 0) (split_on CHR 0x0A (trim text))"

text \<open>The body of the \<open>try\<close> block after the response text is read; \<open>Inl\<close> is the \<open>throw\<close>.\<close>

definition parse_goals :: "string \<Rightarrow> string + new_goal list" where
  "parse_goals text =
     (let lines = goal_lines text;
          goals = List.map_filter parse_line lines
      in if length goals = 0 \<and> length lines > 0
         then Inl ''Failed to parse any goals from n8n response.''
         else Inr goals)"

text \<open>What \<open>fetch\<close> yields: a rejected request, or a response with a status and a body.\<close>

datatype http_response = FetchFailed | HttpResponse nat string

definition response_ok :: "nat \<Rightarrow> bool" where
  "response_ok status = (200 \<le> status \<and> status \<le> 299)"

definition fetch_goals_try :: "http_response \<Rightarrow> string + new_goal list" where
  "fetch_goals_try r =
     (case r of
        FetchFailed \<Rightarrow> Inl ''fetch failed''
      | HttpResponse status body \<Rightarrow>
          (if \<not> response_ok status then Inl ''n8n workflow failed''
           else parse_goals body))"

text \<open>The \<open>catch\<close> block turns every error into the empty list.\<close>

definition fetchHealthGoalsFromN8n :: "http_response \<Rightarrow> new_goal list" where
  "fetchHealthGoalsFromN8n r = (case fetch_goals_try r of Inl e \<Rightarrow> [] | Inr goals \<Rightarrow> goals)"

section \<open>The store\<close>

record rec_row = new_goal +
  rec_id :: nat
  userId :: string

record recommendation = rec_row +
  isCompleted :: bool

text \<open>
  A number is a finite value, an infinity or \<open>NaN\<close>; a finite value is kept exactly (the
  rounding to the nearest binary64 number is not modelled, the overflow to an infinity is).
\<close>

datatype js_number = Fin rat | PInf | NInf | NaN

datatype jsval = JStr string | JNum js_number

text \<open>
  The client sends the object of an insert as JSON text (\<open>JSON.stringify\<close>), in which a
  number that is not finite is written \<open>null\<close>; the stored record has the values of that text.
\<close>

datatype json = JsonString string | JsonNumber rat | JsonNull

definition to_json :: "jsval \<Rightarrow> json" where
  "to_json v =
     (case v of
        JStr s \<Rightarrow> JsonString s
      | JNum n \<Rightarrow> (case n of Fin q \<Rightarrow> JsonNumber q | _ \<Rightarrow> JsonNull))"

record metric_row =
  row_fields :: "json obj"
  created_at :: nat

datatype game_type = Clicker | Memory

record game_row =
  game_user :: string
  game_kind :: game_type
  score :: int

text \<open>
  The tables the pages write. \<open>created_at\<close> is the insertion time in milliseconds since the
  epoch; the ids of \<open>recommendations\<close> come from the sequence \<open>rec_id_seq\<close>, which hands out
  each number once.
\<close>

record db =
  user_points :: ledger
  daily_metrics :: "metric_row list"
  game_sessions :: "game_row list"
  recommendations_tbl :: "rec_row list"
  recommendation_status :: "(string \<times> nat) \<rightharpoonup> bool"
  rec_id_seq :: nat

text \<open>
  Each write is given the error the store answers it with, if any; a write answered with an
  error leaves the table as it was. The service returns \<open>{ error: error?.message }\<close>.
\<close>

definition updatePoints :: "pg_error option \<Rightarrow> string \<Rightarrow> int \<Rightarrow> db \<Rightarrow> string option \<times> db" where
  "updatePoints err uid pts d =
     (case err of
        Some e \<Rightarrow> (error_message err, d)
      | None \<Rightarrow> (None, d\<lparr>user_points := (user_points d)(uid \<mapsto> pts)\<rparr>))"

definition saveSession :: "pg_error option \<Rightarrow> string \<Rightarrow> game_type \<Rightarrow> int \<Rightarrow> db \<Rightarrow> string option \<times> db" where
  "saveSession err uid gameType sc d =
     (case err of
        Some e \<Rightarrow> (error_message err, d)
      | None \<Rightarrow>
          (None, d\<lparr>game_sessions :=
                     game_sessions d @ [\<lparr>game_user = uid, game_kind = gameType, score = sc\<rparr>]\<rparr>))"

subsection \<open>Recommendations\<close>

definition to_recommendation :: "bool \<Rightarrow> rec_row \<Rightarrow> recommendation" where
  "to_recommendation done r =
     \<lparr>goal = goal r, category = category r, difficulty = difficulty r,
      rec_id = rec_id r, userId = userId r, isCompleted = done\<rparr>"

text \<open>
  \<open>recommendations.get\<close>: an error of the first read gives the empty list, an error of the
  status read leaves the status map empty; \<open>statusMap.get(r.id) || false\<close>.
\<close>

definition recommendations_get ::
  "pg_error option \<Rightarrow> pg_error option \<Rightarrow> string \<Rightarrow> db \<Rightarrow> recommendation list" where
  "recommendations_get recsError statusError uid d =
     (case recsError of
        Some e \<Rightarrow> []
      | None \<Rightarrow>
          (let recs = filter (\<lambda>r. userId r = uid) (recommendations_tbl d);
               statusMap = (\<lambda>i. if statusError \<noteq> None then None
                                else recommendation_status d (uid, i))
           in map (\<lambda>r. to_recommendation
                          (case statusMap (rec_id r) of Some b \<Rightarrow> b | None \<Rightarrow> False) r) recs))"

text \<open>The rows an insert of \<open>newGoals\<close> creates, numbered from the sequence.\<close>

fun insert_rows :: "string \<Rightarrow> nat \<Rightarrow> new_goal list \<Rightarrow> rec_row list" where
  "insert_rows uid n [] = []"
| "insert_rows uid n (g # gs) =
     \<lparr>goal = goal g, category = category g, difficulty = difficulty g,
      rec_id = n, userId = uid\<rparr> # insert_rows uid (Suc n) gs"

text \<open>
  \<open>recommendations.create\<close>: delete all rows of the user, then insert the batch and read the
  inserted rows back.
\<close>

definition recommendations_create ::
  "pg_error option \<Rightarrow> pg_error option \<Rightarrow> string \<Rightarrow> new_goal list \<Rightarrow> db
     \<Rightarrow> (recommendation list \<times> string option) \<times> db" where
  "recommendations_create deleteError insertError uid newGoals d =
     (case deleteError of
        Some e \<Rightarrow> (([], error_message deleteError), d)
      | None \<Rightarrow>
          (let d1 = d\<lparr>recommendations_tbl := filter (\<lambda>r. userId r \<noteq> uid) (recommendations_tbl d)\<rparr>
           in (case insertError of
                 Some e \<Rightarrow> (([], error_message insertError), d1)
               | None \<Rightarrow>
                   (let rows = insert_rows uid (rec_id_seq d1) newGoals;
                        d2 = d1\<lparr>recommendations_tbl := recommendations_tbl d1 @ rows,
                                rec_id_seq := rec_id_seq d1 + length newGoals\<rparr>
                    in ((map (to_recommendation False) rows, None), d2)))))"

text \<open>\<open>recommendations.updateStatus\<close>: one upsert of a status row per recommendation.\<close>

definition updateStatus ::
  "pg_error option \<Rightarrow> string \<Rightarrow> recommendation list \<Rightarrow> db \<Rightarrow> string option \<times> db" where
  "updateStatus err uid updatedRecs d =
     (case err of
        Some e \<Rightarrow> (error_message err, d)
      | None \<Rightarrow>
          (None, d\<lparr>recommendation_status :=
                     fold (\<lambda>r m. m((uid, rec_id r) \<mapsto> isCompleted r)) updatedRecs
                       (recommendation_status d)\<rparr>))"

section \<open>The pages\<close>

text \<open>
  The state the handlers of the Diagnosis and Progress pages read and set: the user of the
  auth context, the component state and the \<open>lastGoalGen_\<close> entries of the local storage
  (a time in milliseconds). The busy flags, which only disable buttons, are left out.
\<close>

record page =
  cur_user :: "user option"
  recommendations :: "recommendation list"
  canGenerate :: bool
  message :: string
  metrics :: "string obj"
  submittedToday :: bool
  lastGoalGen :: "string \<rightharpoonup> nat"

text \<open>
  Modelled from the spec: \<open>updateUser\<close> of the application context (App, not among the
  sources) sets the given field of the session's user; here the points.
\<close>

definition updateUser :: "int \<Rightarrow> page \<Rightarrow> page" where
  "updateUser newPoints s = s\<lparr>cur_user := map_option (\<lambda>u. u\<lparr>points := newPoints\<rparr>) (cur_user s)\<rparr>"

subsection \<open>Progress page\<close>

definition difficultyPoints :: "difficulty \<Rightarrow> int" where
  "difficultyPoints d = (case d of Easy \<Rightarrow> 2 | Medium \<Rightarrow> 5 | Hard \<Rightarrow> 8)"

text \<open>The loop of \<open>handleSaveChanges\<close> over the working set, with its accumulator.\<close>

fun pointsEarned_loop :: "recommendation list \<Rightarrow> recommendation list \<Rightarrow> int \<Rightarrow> int" where
  "pointsEarned_loop originalRecs [] pointsEarned = pointsEarned"
| "pointsEarned_loop originalRecs (r # rest) pointsEarned =
     pointsEarned_loop originalRecs rest
       (case find (\<lambda>r0. rec_id r0 = rec_id r) originalRecs of
          Some originalRec \<Rightarrow>
            (if \<not> isCompleted originalRec \<and> isCompleted r
             then pointsEarned + difficultyPoints (difficulty r)
             else pointsEarned)
        | None \<Rightarrow> pointsEarned)"

definition handleToggleCompletion :: "nat \<Rightarrow> page \<Rightarrow> page" where
  "handleToggleCompletion i s =
     s\<lparr>recommendations :=
         map (\<lambda>r. if rec_id r = i then r\<lparr>isCompleted := \<not> isCompleted r\<rparr> else r)
           (recommendations s)\<rparr>"

definition fetchRecommendations :: "pg_error option \<Rightarrow> pg_error option \<Rightarrow> page \<times> db \<Rightarrow> page \<times> db" where
  "fetchRecommendations recsError statusError sd =
     (case sd of (s, d) \<Rightarrow>
        (case cur_user s of
           None \<Rightarrow> (s, d)
         | Some u \<Rightarrow>
             (s\<lparr>recommendations := recommendations_get recsError statusError (user_id u) d\<rparr>, d)))"

text \<open>
  The errors are those of the two reads of \<open>get\<close>, of the status upsert and of the ledger
  upsert. The handler tests the message \<open>updateStatus\<close> returns; it does not read what
  \<open>updatePoints\<close> returns.
\<close>

definition handleSaveChanges ::
  "pg_error option \<Rightarrow> pg_error option \<Rightarrow> pg_error option \<Rightarrow> pg_error option
     \<Rightarrow> page \<times> db \<Rightarrow> page \<times> db" where
  "handleSaveChanges recsError statusError upsertError pointsError sd =
     (case sd of (s0, d) \<Rightarrow>
        (case cur_user s0 of
           None \<Rightarrow> (s0, d)
         | Some u \<Rightarrow>
             (let s = s0\<lparr>message := ''''\<rparr>;
                  originalRecs = recommendations_get recsError statusError (user_id u) d;
                  pointsEarned = pointsEarned_loop originalRecs (recommendations s) 0;
                  (err, d1) = updateStatus upsertError (user_id u) (recommendations s) d
              in if truthy err then (s\<lparr>message := ''Error saving changes.''\<rparr>, d1)
                 else if pointsEarned > 0 then
                   (let newTotalPoints = points u + pointsEarned;
                        (perr, d2) = updatePoints pointsError (user_id u) newTotalPoints d1
                    in ((updateUser newTotalPoints s)
                          \<lparr>message := ''Changes saved! You've earned ''
                                        @ number_text pointsEarned @ '' points!''\<rparr>, d2))
                 else (s\<lparr>message := ''Your progress has been saved.''\<rparr>, d1))))"

text \<open>
  \<open>handleGenerateGoals\<close>: \<open>now\<close> is the time of the call, the response is that of the goal
  webhook, the errors those of the delete and of the insert.
\<close>

definition handleGenerateGoals ::
  "nat \<Rightarrow> http_response \<Rightarrow> pg_error option \<Rightarrow> pg_error option \<Rightarrow> page \<times> db \<Rightarrow> page \<times> db" where
  "handleGenerateGoals now response deleteError insertError sd =
     (case sd of (s0, d) \<Rightarrow>
        (case cur_user s0 of
           None \<Rightarrow> (s0\<lparr>message := ''User not found.''\<rparr>, d)
         | Some u \<Rightarrow>
             (if \<not> canGenerate s0
              then (s0\<lparr>message := ''You can only generate new goals once per day.''\<rparr>, d)
              else
                (let s = s0\<lparr>message := ''''\<rparr>;
                     newGoals = fetchHealthGoalsFromN8n response
                 in if length newGoals = 0
                    then (s\<lparr>message :=
                              ''Could not generate new goals from the service. Please try again later.''\<rparr>, d)
                    else
                      (let ((savedRecs, err), d1) =
                             recommendations_create deleteError insertError (user_id u) newGoals d
                       in if truthy err then (s\<lparr>message := ''Error saving new goals.''\<rparr>, d1)
                          else
                            (s\<lparr>recommendations := savedRecs,
                               lastGoalGen := (lastGoalGen s)(user_id u \<mapsto> now),
                               canGenerate := False,
                               message := ''New goals have been generated!''\<rparr>, d1))))))"

subsection \<open>Diagnosis page\<close>

text \<open>
  \<open>parseFloat\<close>: leading white space is skipped, then the longest prefix that is a decimal
  literal is read: a sign, then \<open>Infinity\<close> or digits with an optional fraction and an
  optional exponent. Without such a prefix the result is \<open>NaN\<close>; what follows the prefix is
  ignored. The scanners below return the text they have read together with its value. A
  value at or beyond the overflow threshold of binary64 is an infinity.
\<close>

definition binary64_overflow :: rat where
  "binary64_overflow = 2 ^ 1024 - 2 ^ 970"

definition to_number :: "rat \<Rightarrow> js_number" where
  "to_number q = (if binary64_overflow \<le> q then PInf else Fin q)"

definition pow10 :: "int \<Rightarrow> rat" where
  "pow10 e = (if 0 \<le> e then 10 ^ nat e else 1 / 10 ^ nat (- e))"

text \<open>An exponent part needs at least one digit; otherwise nothing is read.\<close>

definition scan_exponent :: "string \<Rightarrow> string \<times> int" where
  "scan_exponent s =
     (case s of
        [] \<Rightarrow> ([], 0)
      | e # r \<Rightarrow>
          (if e = CHR ''e'' \<or> e = CHR ''E'' then
             (case r of
                [] \<Rightarrow> ([], 0)
              | c # r2 \<Rightarrow>
                  (if c = CHR ''-'' then
                     (let ds = takeWhile is_digit r2
                      in if ds = [] then ([], 0) else (e # c # ds, - int (digits_val ds)))
                   else if c = CHR ''+'' then
                     (let ds = takeWhile is_digit r2
                      in if ds = [] then ([], 0) else (e # c # ds, int (digits_val ds)))
                   else
                     (let ds = takeWhile is_digit r
                      in if ds = [] then ([], 0) else (e # ds, int (digits_val ds)))))
           else ([], 0)))"

definition unsigned_prefix :: "string \<Rightarrow> (string \<times> js_number) option" where
  "unsigned_prefix s =
     (if take 8 s = ''Infinity'' then Some (''Infinity'', PInf)
      else
        (let ip = takeWhile is_digit s;
             r = dropWhile is_digit s
         in if r \<noteq> [] \<and> hd r = CHR ''.'' then
              (let fp = takeWhile is_digit (tl r);
                   (x, e) = scan_exponent (dropWhile is_digit (tl r))
               in if ip = [] \<and> fp = [] then None
                  else Some (ip @ CHR ''.'' # fp @ x,
                             to_number (rat_of_nat (digits_val (ip @ fp)) / 10 ^ length fp * pow10 e)))
            else
              (let (x, e) = scan_exponent r
               in if ip = [] then None
                  else Some (ip @ x, to_number (rat_of_nat (digits_val ip) * pow10 e)))))"

definition negate :: "js_number \<Rightarrow> js_number" where
  "negate n = (case n of Fin q \<Rightarrow> Fin (- q) | PInf \<Rightarrow> NInf | NInf \<Rightarrow> PInf | NaN \<Rightarrow> NaN)"

definition literal_prefix :: "string \<Rightarrow> (string \<times> js_number) option" where
  "literal_prefix s =
     (case s of
        [] \<Rightarrow> None
      | c # r \<Rightarrow>
          (if c = CHR ''-'' then map_option (\<lambda>(p, v). (c # p, negate v)) (unsigned_prefix r)
           else if c = CHR ''+'' then map_option (\<lambda>(p, v). (c # p, v)) (unsigned_prefix r)
           else unsigned_prefix s))"

definition parseFloat :: "string \<Rightarrow> js_number" where
  "parseFloat s =
     (case literal_prefix (dropWhile is_ws s) of
        None \<Rightarrow> NaN
      | Some (p, v) \<Rightarrow> v)"

definition isNaN :: "js_number \<Rightarrow> bool" where
  "isNaN n = (n = NaN)"

text \<open>The \<open>reduce\<close> of \<open>handleMetricsSubmit\<close> over the entries of the form.\<close>

definition metrics_step :: "js_number obj \<Rightarrow> string \<times> string \<Rightarrow> js_number obj" where
  "metrics_step acc kv =
     (case kv of (key, val) \<Rightarrow>
        (if trim val \<noteq> '''' then
           (let numValue = parseFloat val
            in if \<not> isNaN numValue then obj_set key numValue acc else acc)
         else acc))"

definition metricsToSave :: "string obj \<Rightarrow> js_number obj" where
  "metricsToSave m = foldl metrics_step [] m"

text \<open>The object \<open>{ user_id: userId, ...toSnakeCase(metrics) }\<close> that \<open>metrics.save\<close> inserts.\<close>

definition metrics_payload :: "string \<Rightarrow> js_number obj \<Rightarrow> jsval obj" where
  "metrics_payload uid m =
     fold (\<lambda>(k, v) row. obj_set k (JNum v) row) (toSnakeCase m) [(''user_id'', JStr uid)]"

text \<open>The stored record has the entries of the object, each value as the JSON text has it.\<close>

definition stored_fields :: "jsval obj \<Rightarrow> json obj" where
  "stored_fields ob = map (\<lambda>(k, v). (k, to_json v)) ob"

definition metrics_save ::
  "pg_error option \<Rightarrow> nat \<Rightarrow> string \<Rightarrow> js_number obj \<Rightarrow> db \<Rightarrow> string option \<times> db" where
  "metrics_save err now uid m d =
     (case err of
        Some e \<Rightarrow> (error_message err, d)
      | None \<Rightarrow>
          (None,
           d\<lparr>daily_metrics := daily_metrics d @
               [\<lparr>row_fields = stored_fields (metrics_payload uid m), created_at = now\<rparr>]\<rparr>))"

text \<open>
  The response of a \<open>select\<close> with \<open>{ count: 'exact', head: true }\<close>: the request is a HEAD
  request, so the response carries the number of matching rows in \<open>count\<close> and no rows
  (\<open>data\<close> is \<open>null\<close>).
\<close>

record 'a head_result = "'a pg_result" +
  count :: "nat option"

definition start_of_day :: "nat \<Rightarrow> nat" where
  "start_of_day now = now - now mod 86400000"

definition select_metrics_head ::
  "pg_error option \<Rightarrow> string \<Rightarrow> nat \<Rightarrow> db \<Rightarrow> metric_row list head_result" where
  "select_metrics_head err uid since d =
     (case err of
        Some e \<Rightarrow> \<lparr>data = None, error = Some e, count = None\<rparr>
      | None \<Rightarrow>
          \<lparr>data = None, error = None,
           count = Some (length (filter (\<lambda>r. map_of (row_fields r) ''user_id'' = Some (JsonString uid)
                                               \<and> since \<le> created_at r)
                                        (daily_metrics d)))\<rparr>)"

text \<open>
  \<open>hasSubmittedToday\<close>. \<open>rpc_count\<close> is the value of \<open>(supabase.rpc as any).count\<close>, a
  property of the client's method \<open>rpc\<close>; \<open>None\<close> is \<open>undefined\<close>, and \<open>undefined > 0\<close> is
  false.
\<close>

definition hasSubmittedToday_result :: "int option \<Rightarrow> metric_row list head_result \<Rightarrow> bool" where
  "hasSubmittedToday_result rpc_count r =
     ((case data r of None \<Rightarrow> 0 | Some rows \<Rightarrow> length rows) > 0
      \<or> (if error r \<noteq> None then False
          else (case rpc_count of None \<Rightarrow> False | Some c \<Rightarrow> c > 0)))"

definition hasSubmittedToday :: "int option \<Rightarrow> pg_error option \<Rightarrow> nat \<Rightarrow> string \<Rightarrow> db \<Rightarrow> bool" where
  "hasSubmittedToday rpc_count err now uid d =
     hasSubmittedToday_result rpc_count (select_metrics_head err uid (start_of_day now) d)"

definition checkSubmissionStatus ::
  "int option \<Rightarrow> pg_error option \<Rightarrow> nat \<Rightarrow> page \<times> db \<Rightarrow> page \<times> db" where
  "checkSubmissionStatus rpc_count err now sd =
     (case sd of (s, d) \<Rightarrow>
        (case cur_user s of
           None \<Rightarrow> (s, d)
         | Some u \<Rightarrow> (s\<lparr>submittedToday := hasSubmittedToday rpc_count err now (user_id u) d\<rparr>, d)))"

text \<open>
  The errors are those of the game-session insert and of the ledger upsert; the handler
  reads neither result.
\<close>

definition handleGameEnd ::
  "pg_error option \<Rightarrow> pg_error option \<Rightarrow> game_type \<Rightarrow> int \<Rightarrow> page \<times> db \<Rightarrow> page \<times> db" where
  "handleGameEnd sessionError pointsError gameType sc sd =
     (case sd of (s, d) \<Rightarrow>
        (case cur_user s of
           None \<Rightarrow> (s, d)
         | Some u \<Rightarrow>
             (let (serr, d1) = saveSession sessionError (user_id u) gameType sc d;
                  newPoints = points u + 10;
                  s1 = updateUser newPoints s;
                  (perr, d2) = updatePoints pointsError (user_id u) newPoints d1
              in (s1, d2))))"

text \<open>
  The errors are those of the metrics insert and of the ledger upsert. The handler tests
  the message \<open>metrics.save\<close> returns; it does not read what \<open>updatePoints\<close> returns.
\<close>

definition handleMetricsSubmit ::
  "pg_error option \<Rightarrow> pg_error option \<Rightarrow> nat \<Rightarrow> page \<times> db \<Rightarrow> page \<times> db" where
  "handleMetricsSubmit saveError pointsError now sd =
     (case sd of (s0, d) \<Rightarrow>
        (case cur_user s0 of
           None \<Rightarrow> (s0, d)
         | Some u \<Rightarrow>
             (let s = s0\<lparr>message := ''''\<rparr>;
                  (err, d1) = metrics_save saveError now (user_id u) (metricsToSave (metrics s)) d
              in if truthy err then (s\<lparr>message := ''Error: '' @ message_text err\<rparr>, d1)
                 else
                   (let newPoints = points u + 25;
                        s1 = updateUser newPoints s;
                        (perr, d2) = updatePoints pointsError (user_id u) newPoints d1
                    in (s1\<lparr>message := ''Metrics saved successfully! You earned 25 points.'',
                            submittedToday := True\<rparr>, d2)))))"

section \<open>Operations of a session\<close>

text \<open>
  The handlers of the two pages as the actions of a session, each with the answers of the
  store and of the webhook it meets, and a run of actions from a state.
\<close>

datatype action =
    GameEnd "pg_error option" "pg_error option" game_type int
  | MetricsSubmit "pg_error option" "pg_error option" nat
  | CheckSubmissionStatus "int option" "pg_error option" nat
  | FetchRecommendations "pg_error option" "pg_error option"
  | GenerateGoals nat http_response "pg_error option" "pg_error option"
  | ToggleCompletion nat
  | SaveChanges "pg_error option" "pg_error option" "pg_error option" "pg_error option"

fun step :: "action \<Rightarrow> page \<times> db \<Rightarrow> page \<times> db" where
  "step (GameEnd sessionError pointsError gameType sc) sd =
     handleGameEnd sessionError pointsError gameType sc sd"
| "step (MetricsSubmit saveError pointsError now) sd =
     handleMetricsSubmit saveError pointsError now sd"
| "step (CheckSubmissionStatus rpc_count err now) sd =
     checkSubmissionStatus rpc_count err now sd"
| "step (FetchRecommendations recsError statusError) sd =
     fetchRecommendations recsError statusError sd"
| "step (GenerateGoals now response deleteError insertError) sd =
     handleGenerateGoals now response deleteError insertError sd"
| "step (ToggleCompletion i) sd = (handleToggleCompletion i (fst sd), snd sd)"
| "step (SaveChanges recsError statusError upsertError pointsError) sd =
     handleSaveChanges recsError statusError upsertError pointsError sd"

definition run :: "action list \<Rightarrow> page \<times> db \<Rightarrow> page \<times> db" where
  "run acts sd = fold step acts sd"

definition earns_points :: "action \<Rightarrow> bool" where
  "earns_points a =
     (case a of
        GameEnd _ _ _ _ \<Rightarrow> True
      | MetricsSubmit _ _ _ \<Rightarrow> True
      | SaveChanges _ _ _ _ \<Rightarrow> True
      | _ \<Rightarrow> False)"

section \<open>Notions of the specification\<close>

text \<open>
  A recommendation of the working set is newly completed when it is complete there and the
  persisted set holds it, by id, as incomplete; the tariff sum of a working set adds the
  tariff of the difficulty over its newly completed recommendations.
\<close>

definition newly_completed :: "recommendation list \<Rightarrow> recommendation \<Rightarrow> bool" where
  "newly_completed persisted r =
     (isCompleted r \<and> (\<exists>p \<in> set persisted. rec_id p = rec_id r \<and> \<not> isCompleted p))"

definition tariff_sum :: "recommendation list \<Rightarrow> recommendation list \<Rightarrow> int" where
  "tariff_sum persisted workingSet =
     sum_list (map (\<lambda>r. difficultyPoints (difficulty r))
                 (filter (newly_completed persisted) workingSet))"

text \<open>
  The store keeps ids unique and below the sequence: every recommendation and every status
  row carries an id the sequence has already handed out, and no id twice.
\<close>

definition db_wf :: "db \<Rightarrow> bool" where
  "db_wf d =
     (distinct (map rec_id (recommendations_tbl d))
      \<and> (\<forall>r \<in> set (recommendations_tbl d). rec_id r < rec_id_seq d)
      \<and> (\<forall>k \<in> dom (recommendation_status d). snd k < rec_id_seq d))"

subsection \<open>Decimal literals\<close>











section \<open>Example states\<close>

definition example_user :: user where
  "example_user =
     \<lparr>user_id = ''u1'', email = ''ada@example.org'', firstName = ''Ada'', lastName = ''L'',
      points = 0\<rparr>"

definition example_users_row :: users_row where
  "example_users_row =
     \<lparr>row_id = ''u1'', first_name = ''Ada'', last_name = ''L'', row_email = ''ada@example.org''\<rparr>"

text \<open>A session waiting for the second factor, with the challenge \<open>654321\<close> and a wrong code typed.\<close>

definition example_auth :: auth_state where
  "example_auth =
     \<lparr>view = Otp, form_email = ''ada@example.org'', form_otp = ''000000'', form_error = '''',
      otpCache = [''ada@example.org'' \<mapsto> ''654321''],
      backend_session = Some ''u1'', logged_in = None\<rparr>"

text \<open>
  A user with two recommendations, the Easy one stored as complete, the Hard one without a
  status row, who has ticked both and filled in the metrics form.
\<close>

definition example_recs :: "recommendation list" where
  "example_recs =
     [\<lparr>goal = ''Eat greens'', category = Diet, difficulty = Easy, rec_id = 1, userId = ''u1'',
       isCompleted = True\<rparr>,
      \<lparr>goal = ''Run 5k'', category = Exercise, difficulty = Hard, rec_id = 2, userId = ''u1'',
       isCompleted = True\<rparr>]"

definition example_db :: db where
  "example_db =
     \<lparr>user_points = [''u1'' \<mapsto> 0], daily_metrics = [], game_sessions = [],
      recommendations_tbl =
        [\<lparr>goal = ''Eat greens'', category = Diet, difficulty = Easy, rec_id = 1, userId = ''u1''\<rparr>,
         \<lparr>goal = ''Run 5k'', category = Exercise, difficulty = Hard, rec_id = 2, userId = ''u1''\<rparr>],
      recommendation_status = [(''u1'', 1) \<mapsto> True],
      rec_id_seq = 3\<rparr>"

definition example_page :: page where
  "example_page =
     \<lparr>cur_user = Some example_user, recommendations = example_recs, canGenerate = True,
      message = '''', metrics = [(''heartRate'', ''72''), (''steps'', '''')],
      submittedToday = False, lastGoalGen = Map.empty\<rparr>"

definition example_response :: http_response where
  "example_response = HttpResponse 200 ''Walk 10k;Exercise;Hard\<newline>Do yoga\<newline>Run;BadCategory;Easy''"

definition example_bad_response :: http_response where
  "example_bad_response = HttpResponse 200 ''Do yoga\<newline>Run;BadCategory;Easy''"

section \<open>Properties\<close>

subsection \<open>Points read\<close>

lemma getPoints_failed_read: "error r \<noteq> None \<or> data r = None \<Longrightarrow> getPoints r = 0"
  by (simp add: getPoints_def)

lemma select_points_single_missing:
  "l uid = None \<Longrightarrow> getPoints (select_points_single l uid read_err) = 0"
  by (simp add: getPoints_def select_points_single_def split: option.splits)

lemma select_points_single_failed:
  "getPoints (select_points_single l uid (Some e)) = 0"
  by (simp add: getPoints_def select_points_single_def)

lemma select_points_single_zero:
  "getPoints (select_points_single (l(uid \<mapsto> 0)) uid None) = 0"
  by (simp add: getPoints_def select_points_single_def)

lemma example_camel: "toCamelCase [(''fitness_level'', ''Beginner'')] = [(''fitnessLevel'', ''Beginner'')]"
  by code_simp

text \<open>
  C10. \<open>getPoints\<close> is 0 whenever the read answers with an error or without a row (in the
  store: whenever the request fails or the user has no ledger row), which is also what it is
  for a stored balance of 0. \<open>getFullUserProfile\<close> reports an error only for the \<open>users\<close>
  read: once that read has answered with a row, the profile comes without error (with the
  health row under its camel-case keys), and its points are 0 after a failed or empty ledger
  read.
\<close>

theorem getPoints_zero_on_failed_read:
  "(error r \<noteq> None \<or> data r = None \<longrightarrow> getPoints r = 0)
   \<and> (l uid = None \<longrightarrow> getPoints (select_points_single l uid read_err) = 0)
   \<and> getPoints (select_points_single l uid (Some e))
       = getPoints (select_points_single (l(uid \<mapsto> 0)) uid None)
   \<and> profile_error (getFullUserProfile (Inr row) healthRes pointsRes) = None
   \<and> (error r \<noteq> None \<or> data r = None \<longrightarrow>
        getFullUserProfile (Inr row) healthRes r
          = \<lparr>profile_user = Some (toCamelCase_user row 0),
             profile_health = map_option toCamelCase (data healthRes),
             profile_error = None\<rparr>)"
  using getPoints_failed_read [of r] select_points_single_missing [of l uid read_err]
    select_points_single_failed [of l uid e] select_points_single_zero [of l uid]
  by (auto simp: getFullUserProfile_def)

theorem getPoints_zero_on_failed_read_witness:
  "getPoints \<lparr>data = None, error = Some (PgError (Some ''timeout''))\<rparr> = 0
   \<and> getPoints (select_points_single Map.empty ''u1'' None) = 0
   \<and> getFullUserProfile (Inr example_users_row)
        \<lparr>data = Some [(''fitness_level'', ''Beginner'')], error = None\<rparr>
        \<lparr>data = None, error = Some (PgError (Some ''timeout''))\<rparr>
       = \<lparr>profile_user = Some example_user,
          profile_health = Some [(''fitnessLevel'', ''Beginner'')], profile_error = None\<rparr>"
  using getPoints_zero_on_failed_read
    [where r = "\<lparr>data = None, error = Some (PgError (Some ''timeout''))\<rparr>" and l = Map.empty and uid = "''u1''"
       and read_err = None
       and healthRes = "\<lparr>data = Some [(''fitness_level'', ''Beginner'')], error = None\<rparr>"
       and row = example_users_row]
  by (simp add: toCamelCase_user_def example_users_row_def example_user_def example_camel)

subsection \<open>Passcode verification\<close>

lemma verifyOtp_valid:
  "fst (verifyOtp cache em code) \<longleftrightarrow> (cache em = Some code \<or> code = ''123456'')"
  by (auto simp: verifyOtp_def Let_def)

lemma verifyOtp_cache:
  "snd (verifyOtp cache em code)
     = (if fst (verifyOtp cache em code) then cache(em := None) else cache)"
  by (simp add: verifyOtp_def Let_def)

lemma handleOtpVerification_invalid:
  assumes "\<not> fst (verifyOtp (otpCache s) (form_email s) (form_otp s))"
  shows "handleOtpVerification userRes healthRes pointsRes s
           = s\<lparr>form_error := ''Invalid OTP.'', backend_session := None\<rparr>"
proof -
  obtain v c where vc: "verifyOtp (otpCache s) (form_email s) (form_otp s) = (v, c)"
    by (cases "verifyOtp (otpCache s) (form_email s) (form_otp s)")
  with assms have "\<not> v" by simp
  moreover from vc verifyOtp_cache [of "otpCache s" "form_email s" "form_otp s"] \<open>\<not> v\<close>
  have "c = otpCache s" by simp
  ultimately show ?thesis
    using vc by (simp add: handleOtpVerification_def Let_def signOut_def)
qed

text \<open>
  C7. \<open>verifyOtp\<close> answers true exactly when the code is the challenge cached for the email
  or the fixed code \<open>123456\<close>; when it does, the challenge is deleted from the cache. When
  it answers false, \<open>handleOtpVerification\<close> signs out, so no backend session is left, and
  it does not log in: the authenticated profile is as before (none, on the way from the
  credentials to the second factor), and the error "Invalid OTP." is shown.
\<close>

theorem verifyOtp_succeeds_iff_match_or_bypass:
  "(fst (verifyOtp cache em code) \<longleftrightarrow> (cache em = Some code \<or> code = ''123456''))
   \<and> (fst (verifyOtp cache em code) \<longrightarrow>
        snd (verifyOtp cache em code) = cache(em := None)
        \<and> snd (verifyOtp cache em code) em = None)
   \<and> (\<not> fst (verifyOtp (otpCache s) (form_email s) (form_otp s)) \<longrightarrow>
        backend_session (handleOtpVerification userRes healthRes pointsRes s) = None
        \<and> logged_in (handleOtpVerification userRes healthRes pointsRes s) = logged_in s
        \<and> form_error (handleOtpVerification userRes healthRes pointsRes s) = ''Invalid OTP.'')"
  using verifyOtp_valid [of cache em code] verifyOtp_cache [of cache em code]
    handleOtpVerification_invalid [of s userRes healthRes pointsRes]
  by simp

theorem verifyOtp_succeeds_iff_match_or_bypass_witness:
  "fst (verifyOtp [''ada@example.org'' \<mapsto> ''654321''] ''ada@example.org'' ''654321'')
   \<and> snd (verifyOtp [''ada@example.org'' \<mapsto> ''654321''] ''ada@example.org'' ''654321'')
        ''ada@example.org'' = None
   \<and> \<not> fst (verifyOtp (otpCache example_auth) (form_email example_auth) (form_otp example_auth))
   \<and> backend_session
        (handleOtpVerification (Inr example_users_row) \<lparr>data = None, error = None\<rparr>
           \<lparr>data = None, error = None\<rparr> example_auth) = None
   \<and> logged_in
        (handleOtpVerification (Inr example_users_row) \<lparr>data = None, error = None\<rparr>
           \<lparr>data = None, error = None\<rparr> example_auth) = None"
  using verifyOtp_succeeds_iff_match_or_bypass
    [where cache = "[''ada@example.org'' \<mapsto> ''654321'']" and em = "''ada@example.org''"
       and code = "''654321''" and s = example_auth and userRes = "Inr example_users_row"
       and healthRes = "\<lparr>data = None, error = None\<rparr>"
       and pointsRes = "\<lparr>data = None, error = None\<rparr>"]
  by (simp add: example_auth_def verifyOtp_def)

subsection \<open>Saving goal completion\<close>

lemma find_distinct_id:
  "distinct (map rec_id ps) \<Longrightarrow>
   find (\<lambda>p. rec_id p = i) ps = Some q \<longleftrightarrow> (q \<in> set ps \<and> rec_id q = i)"
proof (induction ps)
  case Nil
  then show ?case by simp
next
  case (Cons p ps)
  show ?case
  proof (cases "rec_id p = i")
    case True
    with Cons.prems have "\<And>x. x \<in> set ps \<Longrightarrow> rec_id x \<noteq> i" by (auto simp: image_iff)
    with True show ?thesis by auto
  next
    case False
    with Cons show ?thesis by auto
  qed
qed

lemma find_None_id: "find (\<lambda>p. rec_id p = i) ps = None \<longleftrightarrow> i \<notin> rec_id ` set ps"
  by (induction ps) auto

lemma loop_step_distinct:
  assumes "distinct (map rec_id ps)"
  shows "(case find (\<lambda>p. rec_id p = rec_id r) ps of
            Some originalRec \<Rightarrow>
              (if \<not> isCompleted originalRec \<and> isCompleted r
               then acc + difficultyPoints (difficulty r) else acc)
          | None \<Rightarrow> acc)
         = acc + (if newly_completed ps r then difficultyPoints (difficulty r) else 0)"
proof (cases "find (\<lambda>p. rec_id p = rec_id r) ps")
  case None
  then have "rec_id r \<notin> rec_id ` set ps" by (simp add: find_None_id)
  then have "\<not> newly_completed ps r" by (auto simp: newly_completed_def image_iff)
  with None show ?thesis by simp
next
  case (Some q)
  with assms have q: "q \<in> set ps" "rec_id q = rec_id r"
    by (simp_all add: find_distinct_id)
  have uniq: "p = q" if "p \<in> set ps" "rec_id p = rec_id r" for p
  proof -
    from that assms have "find (\<lambda>p. rec_id p = rec_id r) ps = Some p"
      by (simp add: find_distinct_id)
    with Some show ?thesis by simp
  qed
  have "newly_completed ps r \<longleftrightarrow> (isCompleted r \<and> \<not> isCompleted q)"
    unfolding newly_completed_def using q uniq by blast
  with Some show ?thesis by simp
qed

lemma pointsEarned_loop_tariff_sum:
  assumes "distinct (map rec_id ps)"
  shows "pointsEarned_loop ps ws acc = acc + tariff_sum ps ws"
proof (induction ws arbitrary: acc)
  case Nil
  then show ?case by (simp add: tariff_sum_def)
next
  case (Cons r ws)
  have "pointsEarned_loop ps (r # ws) acc
          = pointsEarned_loop ps ws
              (acc + (if newly_completed ps r then difficultyPoints (difficulty r) else 0))"
    using loop_step_distinct [OF assms, where r = r and acc = acc] by simp
  also have "\<dots> = acc + (if newly_completed ps r then difficultyPoints (difficulty r) else 0)
                    + tariff_sum ps ws"
    by (rule Cons.IH)
  also have "\<dots> = acc + tariff_sum ps (r # ws)"
    by (simp add: tariff_sum_def)
  finally show ?case .
qed

lemma tariff_sum_nonneg: "0 \<le> tariff_sum ps ws"
  unfolding tariff_sum_def
  by (rule sum_list_nonneg) (auto simp: difficultyPoints_def split: difficulty.splits)

lemma tariff_sum_untouched:
  "\<not> newly_completed ps r \<Longrightarrow> tariff_sum ps (ws1 @ r # ws2) = tariff_sum ps (ws1 @ ws2)"
  by (simp add: tariff_sum_def)

lemma no_error_not_truthy: "\<not> truthy (error_message None)"
  by (simp add: truthy_def error_message_def)

lemma error_message_truthy:
  "truthy (error_message err) \<longleftrightarrow> (\<exists>m. err = Some (PgError (Some m)) \<and> m \<noteq> [])"
  by (cases err; cases "the err"; cases "error_message err")
    (auto simp: truthy_def error_message_def)

lemma updateStatus_message: "fst (updateStatus ue uid rs d) = error_message ue"
  by (cases ue) (simp_all add: updateStatus_def error_message_def)

lemma updateStatus_failed: "ue \<noteq> None \<Longrightarrow> snd (updateStatus ue uid rs d) = d"
  by (cases ue) (simp_all add: updateStatus_def)

lemma user_points_updateStatus: "user_points (snd (updateStatus ue uid rs d)) = user_points d"
  by (simp add: updateStatus_def split: option.split)

lemma user_points_updatePoints:
  "user_points (snd (updatePoints pe uid v d))
     = (if pe = None then (user_points d)(uid \<mapsto> v) else user_points d)"
  by (simp add: updatePoints_def split: option.split)

lemma handleSaveChanges_unfold:
  assumes "cur_user s = Some u"
  shows "handleSaveChanges re se ue pe (s, d)
     = (if truthy (error_message ue)
        then (s\<lparr>message := ''Error saving changes.''\<rparr>, snd (updateStatus ue (user_id u) (recommendations s) d))
        else if 0 < pointsEarned_loop (recommendations_get re se (user_id u) d) (recommendations s) 0
        then (s\<lparr>cur_user := Some (u\<lparr>points := points u
                  + pointsEarned_loop (recommendations_get re se (user_id u) d) (recommendations s) 0\<rparr>),
                message := ''Changes saved! You've earned ''
                  @ number_text (pointsEarned_loop (recommendations_get re se (user_id u) d)
                                   (recommendations s) 0)
                  @ '' points!''\<rparr>,
              snd (updatePoints pe (user_id u)
                     (points u + pointsEarned_loop (recommendations_get re se (user_id u) d)
                                   (recommendations s) 0)
                     (snd (updateStatus ue (user_id u) (recommendations s) d))))
        else (s\<lparr>message := ''Your progress has been saved.''\<rparr>,
              snd (updateStatus ue (user_id u) (recommendations s) d)))"
proof -
  obtain m d1 where us: "updateStatus ue (user_id u) (recommendations s) d = (m, d1)"
    by (cases "updateStatus ue (user_id u) (recommendations s) d")
  with updateStatus_message [of ue "user_id u" "recommendations s" d]
  have m: "m = error_message ue" by simp
  obtain pm d2 where up: "updatePoints pe (user_id u)
      (points u + pointsEarned_loop (recommendations_get re se (user_id u) d) (recommendations s) 0) d1
        = (pm, d2)"
    by (metis surj_pair)
  show ?thesis
    using assms us m up
    by (simp add: handleSaveChanges_def updateUser_def Let_def)
qed

lemma handleSaveChanges_failed_upsert:
  assumes "cur_user s = Some u" and "truthy (error_message ue)"
  shows "handleSaveChanges re se ue pe (s, d) = (s\<lparr>message := ''Error saving changes.''\<rparr>, d)"
proof -
  from assms(2) have "ue \<noteq> None"
    by (cases ue) (simp_all add: no_error_not_truthy)
  then show ?thesis
    using assms by (simp add: handleSaveChanges_unfold updateStatus_failed)
qed

lemma handleSaveChanges_saved:
  assumes "cur_user s = Some u" and "\<not> truthy (error_message ue)"
  shows "cur_user (fst (handleSaveChanges re se ue pe (s, d)))
           = Some (u\<lparr>points := points u
                + (if 0 < pointsEarned_loop (recommendations_get re se (user_id u) d) (recommendations s) 0
                   then pointsEarned_loop (recommendations_get re se (user_id u) d) (recommendations s) 0
                   else 0)\<rparr>)"
  using assms by (simp add: handleSaveChanges_unfold)

lemma handleSaveChanges_ledger:
  assumes "cur_user s = Some u" and "\<not> truthy (error_message ue)"
  shows "user_points (snd (handleSaveChanges re se ue pe (s, d)))
           = (if 0 < pointsEarned_loop (recommendations_get re se (user_id u) d) (recommendations s) 0
                 \<and> pe = None
              then (user_points d)(user_id u \<mapsto> points u
                + pointsEarned_loop (recommendations_get re se (user_id u) d) (recommendations s) 0)
              else user_points d)"
  using assms
  by (simp add: handleSaveChanges_unfold user_points_updatePoints user_points_updateStatus)

lemma recommendations_get_ids:
  "map rec_id (recommendations_get re se uid d)
     = (case re of Some e \<Rightarrow> []
        | None \<Rightarrow> map rec_id (filter (\<lambda>r. userId r = uid) (recommendations_tbl d)))"
  by (simp add: recommendations_get_def to_recommendation_def Let_def comp_def split: option.split)

lemma recommendations_get_distinct:
  "distinct (map rec_id (recommendations_tbl d)) \<Longrightarrow>
   distinct (map rec_id (recommendations_get re se uid d))"
  by (simp add: recommendations_get_ids distinct_map_filter split: option.split)

text \<open>
  C3. For a save by a logged-in user, with the ids of the stored recommendations unique: the
  points the loop of \<open>handleSaveChanges\<close> accrues are the tariff sum (Easy 2, Medium 5,
  Hard 8) over the recommendations that are complete in the working set and incomplete in
  the set re-read by \<open>recommendations.get\<close>. After a successful status upsert the session
  points grow by exactly that sum and, when it is positive, the ledger upsert carries the new
  total. A recommendation that is not newly completed, wherever it stands in the working set,
  adds nothing.
\<close>

theorem saveChanges_awards_tariff_sum:
  assumes "cur_user s = Some u" and "distinct (map rec_id (recommendations_tbl d))"
  shows "pointsEarned_loop (recommendations_get re se (user_id u) d) (recommendations s) 0
           = tariff_sum (recommendations_get re se (user_id u) d) (recommendations s)
         \<and> cur_user (fst (handleSaveChanges re se None pe (s, d)))
           = Some (u\<lparr>points := points u
                      + tariff_sum (recommendations_get re se (user_id u) d) (recommendations s)\<rparr>)
         \<and> user_points (snd (handleSaveChanges re se None pe (s, d)))
           = (if 0 < tariff_sum (recommendations_get re se (user_id u) d) (recommendations s)
                 \<and> pe = None
              then (user_points d)(user_id u \<mapsto> points u
                     + tariff_sum (recommendations_get re se (user_id u) d) (recommendations s))
              else user_points d)
         \<and> (\<not> newly_completed (recommendations_get re se (user_id u) d) r \<longrightarrow>
              tariff_sum (recommendations_get re se (user_id u) d) (ws1 @ r # ws2)
                = tariff_sum (recommendations_get re se (user_id u) d) (ws1 @ ws2))
         \<and> difficultyPoints Easy = 2 \<and> difficultyPoints Medium = 5 \<and> difficultyPoints Hard = 8"
proof -
  let ?ps = "recommendations_get re se (user_id u) d"
  have dist: "distinct (map rec_id ?ps)"
    using assms(2) by (rule recommendations_get_distinct)
  have loop: "pointsEarned_loop ?ps (recommendations s) 0 = tariff_sum ?ps (recommendations s)"
    using pointsEarned_loop_tariff_sum [OF dist, of "recommendations s" 0] by simp
  have nonneg: "0 \<le> tariff_sum ?ps (recommendations s)"
    by (rule tariff_sum_nonneg)
  have user: "cur_user (fst (handleSaveChanges re se None pe (s, d)))
                = Some (u\<lparr>points := points u + tariff_sum ?ps (recommendations s)\<rparr>)"
    using handleSaveChanges_saved [OF assms(1) no_error_not_truthy, where re = re and se = se and pe = pe and d = d] loop nonneg by simp
  have ledger: "user_points (snd (handleSaveChanges re se None pe (s, d)))
           = (if 0 < tariff_sum ?ps (recommendations s) \<and> pe = None
              then (user_points d)(user_id u \<mapsto> points u + tariff_sum ?ps (recommendations s))
              else user_points d)"
    using handleSaveChanges_ledger [OF assms(1) no_error_not_truthy, where re = re and se = se and pe = pe and d = d] loop by simp
  have untouched: "\<not> newly_completed ?ps r \<longrightarrow>
      tariff_sum ?ps (ws1 @ r # ws2) = tariff_sum ?ps (ws1 @ ws2)"
    by (simp add: tariff_sum_untouched)
  have tariff: "difficultyPoints Easy = 2 \<and> difficultyPoints Medium = 5 \<and> difficultyPoints Hard = 8"
    by (simp add: difficultyPoints_def)
  from loop user ledger untouched tariff show ?thesis by blast
qed

lemma example_persisted:
  "recommendations_get None None ''u1'' example_db
     = [\<lparr>goal = ''Eat greens'', category = Diet, difficulty = Easy, rec_id = 1, userId = ''u1'',
          isCompleted = True\<rparr>,
        \<lparr>goal = ''Run 5k'', category = Exercise, difficulty = Hard, rec_id = 2, userId = ''u1'',
          isCompleted = False\<rparr>]"
  by (simp add: recommendations_get_def example_db_def to_recommendation_def)

lemma example_tariff_sum: "tariff_sum (recommendations_get None None ''u1'' example_db) example_recs = 8"
  by (simp add: example_persisted tariff_sum_def newly_completed_def example_recs_def
      difficultyPoints_def)

theorem saveChanges_awards_tariff_sum_witness:
  "cur_user example_page = Some example_user
   \<and> distinct (map rec_id (recommendations_tbl example_db))
   \<and> pointsEarned_loop (recommendations_get None None ''u1'' example_db) example_recs 0 = 8
   \<and> map_option points (cur_user (fst (handleSaveChanges None None None None (example_page, example_db))))
       = Some 8
   \<and> user_points (snd (handleSaveChanges None None None None (example_page, example_db))) ''u1''
       = Some 8"
proof -
  have u: "cur_user example_page = Some example_user"
    by (simp add: example_page_def)
  have dist: "distinct (map rec_id (recommendations_tbl example_db))"
    by (simp add: example_db_def)
  have uid: "user_id example_user = ''u1''" "points example_user = 0"
    by (simp_all add: example_user_def)
  have recs: "recommendations example_page = example_recs"
    by (simp add: example_page_def)
  show ?thesis
    using saveChanges_awards_tariff_sum [OF u dist, of None None None]
    by (simp add: u dist uid recs example_tariff_sum)
qed


lemma example_accrual:
  "pointsEarned_loop (recommendations_get None None ''u1'' example_db) example_recs 0 = 8"
  by (simp add: example_persisted example_recs_def difficultyPoints_def)



subsection \<open>Points\<close>

lemma difficultyPoints_nonneg: "0 \<le> difficultyPoints x"
  by (cases x) (simp_all add: difficultyPoints_def)

lemma pointsEarned_loop_ge: "acc \<le> pointsEarned_loop ps ws acc"
proof (induction ws arbitrary: acc)
  case Nil
  then show ?case by simp
next
  case (Cons r ws)
  let ?acc' = "case find (\<lambda>r0. rec_id r0 = rec_id r) ps of
                 Some originalRec \<Rightarrow>
                   (if \<not> isCompleted originalRec \<and> isCompleted r
                    then acc + difficultyPoints (difficulty r) else acc)
               | None \<Rightarrow> acc"
  have "acc \<le> ?acc'"
    using difficultyPoints_nonneg [of "difficulty r"] by (simp split: option.split)
  also have "?acc' \<le> pointsEarned_loop ps ws ?acc'" by (rule Cons.IH)
  finally show ?case by simp
qed

lemma handleGameEnd_result:
  "cur_user s = Some u \<Longrightarrow>
   handleGameEnd se pe g sc (s, d)
     = (s\<lparr>cur_user := Some (u\<lparr>points := points u + 10\<rparr>)\<rparr>,
        snd (updatePoints pe (user_id u) (points u + 10) (snd (saveSession se (user_id u) g sc d))))"
  by (simp add: handleGameEnd_def updateUser_def Let_def split: prod.split)

lemma metrics_save_message: "fst (metrics_save se now uid m d) = error_message se"
  by (simp add: metrics_save_def error_message_def split: option.split)

lemma metrics_save_failed: "se \<noteq> None \<Longrightarrow> snd (metrics_save se now uid m d) = d"
  by (simp add: metrics_save_def split: option.split)

lemma handleMetricsSubmit_unfold:
  assumes "cur_user s = Some u"
  shows "handleMetricsSubmit se pe now (s, d)
     = (if truthy (error_message se)
        then (s\<lparr>message := ''Error: '' @ message_text (error_message se)\<rparr>,
              snd (metrics_save se now (user_id u) (metricsToSave (metrics s)) d))
        else (s\<lparr>cur_user := Some (u\<lparr>points := points u + 25\<rparr>),
                message := ''Metrics saved successfully! You earned 25 points.'',
                submittedToday := True\<rparr>,
              snd (updatePoints pe (user_id u) (points u + 25)
                     (snd (metrics_save se now (user_id u) (metricsToSave (metrics s)) d)))))"
proof -
  obtain m d1 where ms: "metrics_save se now (user_id u) (metricsToSave (metrics s)) d = (m, d1)"
    by (cases "metrics_save se now (user_id u) (metricsToSave (metrics s)) d")
  with metrics_save_message [of se now "user_id u" "metricsToSave (metrics s)" d]
  have m: "m = error_message se" by simp
  obtain pm d2 where up: "updatePoints pe (user_id u) (points u + 25) d1 = (pm, d2)"
    by (metis surj_pair)
  show ?thesis
    using assms ms m up
    by (simp add: handleMetricsSubmit_def updateUser_def Let_def)
qed

lemma handleMetricsSubmit_saved:
  "cur_user s = Some u \<Longrightarrow>
   handleMetricsSubmit None pe now (s, d)
     = (s\<lparr>cur_user := Some (u\<lparr>points := points u + 25\<rparr>),
          message := ''Metrics saved successfully! You earned 25 points.'',
          submittedToday := True\<rparr>,
        snd (updatePoints pe (user_id u) (points u + 25)
               (snd (metrics_save None now (user_id u) (metricsToSave (metrics s)) d))))"
  by (simp add: handleMetricsSubmit_unfold no_error_not_truthy)

lemma handleMetricsSubmit_failed:
  assumes "cur_user s = Some u" and "truthy (error_message se)"
  shows "handleMetricsSubmit se pe now (s, d)
           = (s\<lparr>message := ''Error: '' @ message_text (error_message se)\<rparr>, d)"
proof -
  from assms(2) have "se \<noteq> None"
    by (cases se) (simp_all add: no_error_not_truthy)
  then show ?thesis
    using assms by (simp add: handleMetricsSubmit_unfold metrics_save_failed)
qed

lemma user_points_saveSession: "user_points (snd (saveSession se uid g sc d)) = user_points d"
  by (simp add: saveSession_def split: option.split)

lemma user_points_metrics_save: "user_points (snd (metrics_save se now uid m d)) = user_points d"
  by (simp add: metrics_save_def split: option.split)

lemma user_points_create: "user_points (snd (recommendations_create de ie uid gs d)) = user_points d"
  by (simp add: recommendations_create_def Let_def split: option.split)

lemma handleMetricsSubmit_ledger:
  assumes "cur_user s = Some u"
  shows "user_points (snd (handleMetricsSubmit se pe now (s, d)))
           = (if \<not> truthy (error_message se) \<and> pe = None
              then (user_points d)(user_id u \<mapsto> points u + 25)
              else user_points d)"
  using assms
  by (simp add: handleMetricsSubmit_unfold user_points_updatePoints user_points_metrics_save)

lemma handleGameEnd_ledger:
  assumes "cur_user s = Some u"
  shows "user_points (snd (handleGameEnd se pe g sc (s, d)))
           = (if pe = None then (user_points d)(user_id u \<mapsto> points u + 10) else user_points d)"
  using assms
  by (simp add: handleGameEnd_result user_points_updatePoints user_points_saveSession)

text \<open>
  C2, as the code has it. For each point-earning action of a logged-in user the session
  points are set to the previous value plus the award whatever the store answers to the
  ledger upsert, whose result no handler reads: 10 at a game end, 25 after a successful
  metrics insert, the accrued tariff after a successful status upsert. When the upsert is
  answered with an error the ledger keeps its value while the session has the new one. When
  it succeeds the ledger holds the new total for the user: after a game end, after a metrics
  submission, and after a save whose accrual is positive; a save without accrual makes no
  ledger write and leaves the ledger as it was.
\<close>

theorem session_points_set_whatever_the_ledger_answers:
  assumes "cur_user s = Some u"
  shows "cur_user (fst (handleGameEnd se pe g sc (s, d))) = Some (u\<lparr>points := points u + 10\<rparr>)
     \<and> cur_user (fst (handleMetricsSubmit None pe now (s, d))) = Some (u\<lparr>points := points u + 25\<rparr>)
     \<and> cur_user (fst (handleSaveChanges re ste None pe (s, d)))
         = Some (u\<lparr>points := points u
              + pointsEarned_loop (recommendations_get re ste (user_id u) d) (recommendations s) 0\<rparr>)
     \<and> user_points (snd (handleGameEnd se (Some e) g sc (s, d))) = user_points d
     \<and> user_points (snd (handleMetricsSubmit None (Some e) now (s, d))) = user_points d
     \<and> user_points (snd (handleSaveChanges re ste None (Some e) (s, d))) = user_points d
     \<and> user_points (snd (handleGameEnd se None g sc (s, d))) (user_id u) = Some (points u + 10)
     \<and> user_points (snd (handleMetricsSubmit None None now (s, d))) (user_id u) = Some (points u + 25)
     \<and> user_points (snd (handleSaveChanges re ste None None (s, d)))
         = (if 0 < pointsEarned_loop (recommendations_get re ste (user_id u) d) (recommendations s) 0
            then (user_points d)(user_id u \<mapsto> points u
                   + pointsEarned_loop (recommendations_get re ste (user_id u) d) (recommendations s) 0)
            else user_points d)"
proof -
  have ge: "0 \<le> pointsEarned_loop (recommendations_get re ste (user_id u) d) (recommendations s) 0"
    by (rule pointsEarned_loop_ge)
  have save: "cur_user (fst (handleSaveChanges re ste None pe (s, d)))
         = Some (u\<lparr>points := points u
              + pointsEarned_loop (recommendations_get re ste (user_id u) d) (recommendations s) 0\<rparr>)"
    using handleSaveChanges_saved [OF assms no_error_not_truthy, where re = re and se = ste
        and pe = pe and d = d] ge
    by simp
  have save_l: "user_points (snd (handleSaveChanges re ste None (Some e) (s, d))) = user_points d"
    using handleSaveChanges_ledger [OF assms no_error_not_truthy, where re = re and se = ste
        and pe = "Some e" and d = d]
    by simp
  have save_w: "user_points (snd (handleSaveChanges re ste None None (s, d)))
         = (if 0 < pointsEarned_loop (recommendations_get re ste (user_id u) d) (recommendations s) 0
            then (user_points d)(user_id u \<mapsto> points u
                   + pointsEarned_loop (recommendations_get re ste (user_id u) d) (recommendations s) 0)
            else user_points d)"
    using handleSaveChanges_ledger [OF assms no_error_not_truthy, where re = re and se = ste
        and pe = None and d = d]
    by simp
  have game: "cur_user (fst (handleGameEnd se pe g sc (s, d))) = Some (u\<lparr>points := points u + 10\<rparr>)"
    by (simp add: handleGameEnd_result [OF assms])
  have metr: "cur_user (fst (handleMetricsSubmit None pe now (s, d)))
                = Some (u\<lparr>points := points u + 25\<rparr>)"
    by (simp add: handleMetricsSubmit_saved [OF assms])
  have game_l: "user_points (snd (handleGameEnd se (Some e) g sc (s, d))) = user_points d"
    by (simp add: handleGameEnd_ledger [OF assms])
  have metr_l: "user_points (snd (handleMetricsSubmit None (Some e) now (s, d))) = user_points d"
    by (simp add: handleMetricsSubmit_ledger [OF assms])
  have game_w: "user_points (snd (handleGameEnd se None g sc (s, d))) (user_id u)
                  = Some (points u + 10)"
    by (simp add: handleGameEnd_ledger [OF assms])
  have metr_w: "user_points (snd (handleMetricsSubmit None None now (s, d))) (user_id u)
                  = Some (points u + 25)"
    by (simp add: handleMetricsSubmit_ledger [OF assms] no_error_not_truthy)
  show ?thesis
    using game metr save game_l metr_l save_l game_w metr_w save_w by blast
qed

theorem session_points_set_whatever_the_ledger_answers_witness:
  "cur_user example_page = Some example_user
   \<and> map_option points (cur_user (fst (handleGameEnd None None Clicker 7 (example_page, example_db))))
       = Some 10
   \<and> user_points (snd (handleGameEnd None None Clicker 7 (example_page, example_db))) ''u1''
       = Some 10
   \<and> map_option points
        (cur_user (fst (handleMetricsSubmit None (Some (PgError (Some ''write failed''))) 1000
                          (example_page, example_db))))
       = Some 25
   \<and> user_points (snd (handleMetricsSubmit None (Some (PgError (Some ''write failed''))) 1000
                          (example_page, example_db))) ''u1''
       = Some 0
   \<and> map_option points
        (cur_user (fst (handleSaveChanges None None None None (example_page, example_db))))
       = Some 8
   \<and> user_points (snd (handleSaveChanges None None None None (example_page, example_db))) ''u1''
       = Some 8
   \<and> map_option points
        (cur_user (fst (handleSaveChanges None None None (Some (PgError (Some ''write failed'')))
                          (example_page, example_db))))
       = Some 8
   \<and> user_points (snd (handleSaveChanges None None None (Some (PgError (Some ''write failed'')))
                          (example_page, example_db))) ''u1''
       = Some 0"
proof -
  have u: "cur_user example_page = Some example_user"
    by (simp add: example_page_def)
  have db: "user_points example_db ''u1'' = Some 0"
    by (simp add: example_db_def)
  have uid: "user_id example_user = ''u1''" "points example_user = 0"
    by (simp_all add: example_user_def)
  have acc: "pointsEarned_loop (recommendations_get None None ''u1'' example_db)
               (recommendations example_page) 0 = 8"
    using example_accrual by (simp add: example_page_def)
  show ?thesis
    using session_points_set_whatever_the_ledger_answers
      [OF u, where se = None and pe = None and g = Clicker and sc = 7 and d = example_db
         and now = 1000 and re = None and ste = None and e = "PgError (Some ''write failed'')"]
      session_points_set_whatever_the_ledger_answers
      [OF u, where se = None and pe = "Some (PgError (Some ''write failed''))" and g = Clicker
         and sc = 7 and d = example_db and now = 1000 and re = None and ste = None
         and e = "PgError (Some ''write failed'')"]
    by (simp add: u db uid acc)
qed

text \<open>
  C2, as stated, fails: at a game end of a user with 0 points whose ledger upsert is
  answered with an error, the ledger is unchanged and the session points have become 10.
\<close>

theorem session_points_after_failed_ledger_write_counterexample:
  "fst (updatePoints (Some (PgError (Some ''write failed''))) ''u1'' 10 example_db)
     = Some ''write failed''
   \<and> user_points (snd (handleGameEnd None (Some (PgError (Some ''write failed''))) Clicker 7
                          (example_page, example_db)))
       = user_points example_db
   \<and> map_option points (cur_user example_page) = Some 0
   \<and> map_option points
        (cur_user (fst (handleGameEnd None (Some (PgError (Some ''write failed''))) Clicker 7
                          (example_page, example_db))))
       = Some 10"
  by (simp add: handleGameEnd_def updatePoints_def saveSession_def updateUser_def error_message_def
      example_page_def example_user_def Let_def)

lemma step_user:
  assumes "cur_user s = Some u"
  shows "\<exists>u'. cur_user (fst (step a (s, d))) = Some u' \<and> user_id u' = user_id u
              \<and> points u \<le> points u' \<and> (\<not> earns_points a \<longrightarrow> points u' = points u)"
proof (cases a)
  case (GameEnd se pe g sc)
  then show ?thesis
    by (simp add: handleGameEnd_result [OF assms] earns_points_def)
next
  case (MetricsSubmit se pe now)
  then show ?thesis
    using assms
    by (simp add: handleMetricsSubmit_unfold [OF assms] earns_points_def)
next
  case (CheckSubmissionStatus rc err now)
  then show ?thesis
    using assms by (simp add: checkSubmissionStatus_def earns_points_def)
next
  case (FetchRecommendations re se)
  then show ?thesis
    using assms by (simp add: fetchRecommendations_def earns_points_def)
next
  case (GenerateGoals now resp de ie)
  then show ?thesis
    using assms
    by (simp add: handleGenerateGoals_def earns_points_def Let_def split: prod.split option.split)
next
  case (ToggleCompletion i)
  then show ?thesis
    using assms by (simp add: handleToggleCompletion_def earns_points_def)
next
  case (SaveChanges re se ue pe)
  have "0 \<le> pointsEarned_loop (recommendations_get re se (user_id u) d) (recommendations s) 0"
    by (rule pointsEarned_loop_ge)
  then show ?thesis
    using SaveChanges assms
    by (simp add: handleSaveChanges_unfold [OF assms] earns_points_def)
qed

lemma ledger_write_cases:
  fixes l :: ledger
  assumes "p \<le> v" and "l' = (if c then l(k \<mapsto> v) else l)"
  shows "l' = l \<or> (\<exists>w. p \<le> w \<and> l' = l(k \<mapsto> w))"
  using assms by (cases c) auto

lemma step_ledger_unchanged:
  assumes "cur_user s = Some u" and "\<not> earns_points a"
  shows "user_points (snd (step a (s, d))) = user_points d"
proof (cases a)
  case (CheckSubmissionStatus rc err now)
  then show ?thesis
    using assms by (simp add: checkSubmissionStatus_def)
next
  case (FetchRecommendations re se)
  then show ?thesis
    using assms by (simp add: fetchRecommendations_def)
next
  case (GenerateGoals now resp de ie)
  obtain rs er d1 where c:
    "recommendations_create de ie (user_id u) (fetchHealthGoalsFromN8n resp) d = ((rs, er), d1)"
    by (metis surj_pair)
  with user_points_create [of de ie "user_id u" "fetchHealthGoalsFromN8n resp" d]
  have "user_points d1 = user_points d" by simp
  then have "user_points (snd (handleGenerateGoals now resp de ie (s, d))) = user_points d"
    using assms c by (simp add: handleGenerateGoals_def Let_def split: option.split)
  with GenerateGoals show ?thesis by simp
next
  case (ToggleCompletion i)
  then show ?thesis by simp
qed (use assms in \<open>simp_all add: earns_points_def\<close>)

lemma step_ledger_exact:
  assumes "cur_user s = Some u"
  shows "user_points (snd (step (GameEnd se pe g sc) (s, d)))
           = (if pe = None then (user_points d)(user_id u \<mapsto> points u + 10) else user_points d)"
    and "user_points (snd (step (MetricsSubmit se pe now) (s, d)))
           = (if \<not> truthy (error_message se) \<and> pe = None
              then (user_points d)(user_id u \<mapsto> points u + 25)
              else user_points d)"
    and "user_points (snd (step (SaveChanges re ste ue pe) (s, d)))
           = (if \<not> truthy (error_message ue)
                 \<and> 0 < pointsEarned_loop (recommendations_get re ste (user_id u) d) (recommendations s) 0
                 \<and> pe = None
              then (user_points d)(user_id u \<mapsto> points u
                     + pointsEarned_loop (recommendations_get re ste (user_id u) d) (recommendations s) 0)
              else user_points d)"
proof -
  show "user_points (snd (step (GameEnd se pe g sc) (s, d)))
           = (if pe = None then (user_points d)(user_id u \<mapsto> points u + 10) else user_points d)"
    by (simp add: handleGameEnd_ledger [OF assms])
  show "user_points (snd (step (MetricsSubmit se pe now) (s, d)))
           = (if \<not> truthy (error_message se) \<and> pe = None
              then (user_points d)(user_id u \<mapsto> points u + 25)
              else user_points d)"
    by (simp add: handleMetricsSubmit_ledger [OF assms])
  show "user_points (snd (step (SaveChanges re ste ue pe) (s, d)))
           = (if \<not> truthy (error_message ue)
                 \<and> 0 < pointsEarned_loop (recommendations_get re ste (user_id u) d) (recommendations s) 0
                 \<and> pe = None
              then (user_points d)(user_id u \<mapsto> points u
                     + pointsEarned_loop (recommendations_get re ste (user_id u) d) (recommendations s) 0)
              else user_points d)"
  proof (cases "truthy (error_message ue)")
    case True
    then show ?thesis
      by (simp add: handleSaveChanges_failed_upsert [OF assms])
  next
    case False
    then show ?thesis
      using handleSaveChanges_ledger [OF assms False, where re = re and se = ste and pe = pe and d = d]
      by simp
  qed
qed

lemma step_session_exact:
  assumes "cur_user s = Some u"
  shows "cur_user (fst (step (GameEnd se pe g sc) (s, d))) = Some (u\<lparr>points := points u + 10\<rparr>)"
    and "cur_user (fst (step (MetricsSubmit se pe now) (s, d)))
           = Some (u\<lparr>points := points u + (if truthy (error_message se) then 0 else 25)\<rparr>)"
    and "cur_user (fst (step (SaveChanges re ste ue pe) (s, d)))
           = Some (u\<lparr>points := points u
                + (if truthy (error_message ue) then 0
                   else pointsEarned_loop (recommendations_get re ste (user_id u) d)
                          (recommendations s) 0)\<rparr>)"
proof -
  show "cur_user (fst (step (GameEnd se pe g sc) (s, d))) = Some (u\<lparr>points := points u + 10\<rparr>)"
    by (simp add: handleGameEnd_result [OF assms])
  show "cur_user (fst (step (MetricsSubmit se pe now) (s, d)))
           = Some (u\<lparr>points := points u + (if truthy (error_message se) then 0 else 25)\<rparr>)"
    using assms by (simp add: handleMetricsSubmit_unfold [OF assms])
  have "0 \<le> pointsEarned_loop (recommendations_get re ste (user_id u) d) (recommendations s) 0"
    by (rule pointsEarned_loop_ge)
  then show "cur_user (fst (step (SaveChanges re ste ue pe) (s, d)))
           = Some (u\<lparr>points := points u
                + (if truthy (error_message ue) then 0
                   else pointsEarned_loop (recommendations_get re ste (user_id u) d)
                          (recommendations s) 0)\<rparr>)"
    using assms by (simp add: handleSaveChanges_unfold [OF assms])
qed

lemma step_ledger_write:
  assumes "cur_user s = Some u"
  shows "user_points (snd (step a (s, d))) = user_points d
         \<or> (\<exists>v. points u \<le> v
               \<and> user_points (snd (step a (s, d))) = (user_points d)(user_id u \<mapsto> v))"
proof (cases "earns_points a")
  case False
  then show ?thesis
    using step_ledger_unchanged [OF assms, of a d] by simp
next
  case True
  show ?thesis
  proof (cases a)
    case (GameEnd se pe g sc)
    have "user_points (snd (step a (s, d)))
            = (if pe = None then (user_points d)(user_id u \<mapsto> points u + 10) else user_points d)"
      unfolding GameEnd by (rule step_ledger_exact(1) [OF assms])
    then show ?thesis
      by (rule ledger_write_cases [rotated]) simp
  next
    case (MetricsSubmit se pe now)
    have "user_points (snd (step a (s, d)))
            = (if \<not> truthy (error_message se) \<and> pe = None
               then (user_points d)(user_id u \<mapsto> points u + 25)
               else user_points d)"
      unfolding MetricsSubmit by (rule step_ledger_exact(2) [OF assms])
    then show ?thesis
      by (rule ledger_write_cases [rotated]) simp
  next
    case (SaveChanges re se ue pe)
    let ?n = "pointsEarned_loop (recommendations_get re se (user_id u) d) (recommendations s) 0"
    have "0 \<le> ?n" by (rule pointsEarned_loop_ge)
    then have "points u \<le> points u + ?n" by simp
    moreover have "user_points (snd (step a (s, d)))
            = (if \<not> truthy (error_message ue) \<and> 0 < ?n \<and> pe = None
               then (user_points d)(user_id u \<mapsto> points u + ?n)
               else user_points d)"
      unfolding SaveChanges by (rule step_ledger_exact(3) [OF assms])
    ultimately show ?thesis
      by (rule ledger_write_cases)
  qed (use True in \<open>simp_all add: earns_points_def\<close>)
qed

lemma run_user:
  "cur_user s = Some u \<Longrightarrow>
   \<exists>u'. cur_user (fst (run acts (s, d))) = Some u' \<and> user_id u' = user_id u \<and> points u \<le> points u'"
proof (induction acts arbitrary: s d u)
  case Nil
  then show ?case by (simp add: run_def)
next
  case (Cons a acts)
  obtain s1 d1 where sd1: "step a (s, d) = (s1, d1)"
    by (cases "step a (s, d)")
  from step_user [OF Cons.prems, of a d] sd1
  obtain u1 where u1: "cur_user s1 = Some u1" "user_id u1 = user_id u" "points u \<le> points u1"
    by auto
  from Cons.IH [OF u1(1), of d1]
  obtain u' where "cur_user (fst (run acts (s1, d1))) = Some u'" "user_id u' = user_id u1"
    "points u1 \<le> points u'"
    by auto
  with u1 sd1 show ?case
    by (simp add: run_def)
qed

text \<open>
  C9, as the code has it. What never decreases is the session's copy of the points, under
  the handlers of the Diagnosis and Progress pages (game end, metrics submission, submission
  check, fetching and generating goals, toggling, save). For a logged-in user each of these
  actions leaves the session points at least as high as they were and keeps the user's id,
  and so does every run of them. The three point-earning actions set the session points to
  the previous value plus 10 (game end), plus 25 (metrics submission whose insert reports no
  error), plus the accrued tariff (save whose upsert reports no error), and plus 0 when the
  insert or upsert reports an error. A ledger write happens only in these three, only for
  the session's user, and writes that new session total, which is at least the session
  points before the action: the ledger after the action is the ledger before it, overwritten
  at the user's id with that total when the action earned and the ledger upsert was not
  answered with an error (for a save: and the accrual is positive), and unchanged otherwise.
  Every other action leaves both the session points and the ledger as they were. Nothing is
  said about the value the ledger held before a write, and nothing about login and sign-up.
\<close>

theorem session_points_never_decrease:
  assumes "cur_user s = Some u"
  shows "(\<exists>u'. cur_user (fst (step a (s, d))) = Some u' \<and> user_id u' = user_id u
              \<and> points u \<le> points u' \<and> (\<not> earns_points a \<longrightarrow> points u' = points u))
     \<and> (user_points (snd (step a (s, d))) = user_points d
          \<or> (\<exists>v. points u \<le> v
                \<and> user_points (snd (step a (s, d))) = (user_points d)(user_id u \<mapsto> v)))
     \<and> (\<not> earns_points a \<longrightarrow> user_points (snd (step a (s, d))) = user_points d)
     \<and> (\<exists>u'. cur_user (fst (run acts (s, d))) = Some u' \<and> user_id u' = user_id u
              \<and> points u \<le> points u')
     \<and> cur_user (fst (step (GameEnd se pe g sc) (s, d))) = Some (u\<lparr>points := points u + 10\<rparr>)
     \<and> cur_user (fst (step (MetricsSubmit se pe now) (s, d)))
         = Some (u\<lparr>points := points u + (if truthy (error_message se) then 0 else 25)\<rparr>)
     \<and> cur_user (fst (step (SaveChanges re ste ue pe) (s, d)))
         = Some (u\<lparr>points := points u
              + (if truthy (error_message ue) then 0
                 else pointsEarned_loop (recommendations_get re ste (user_id u) d)
                        (recommendations s) 0)\<rparr>)
     \<and> user_points (snd (step (GameEnd se pe g sc) (s, d)))
         = (if pe = None then (user_points d)(user_id u \<mapsto> points u + 10) else user_points d)
     \<and> user_points (snd (step (MetricsSubmit se pe now) (s, d)))
         = (if \<not> truthy (error_message se) \<and> pe = None
            then (user_points d)(user_id u \<mapsto> points u + 25)
            else user_points d)
     \<and> user_points (snd (step (SaveChanges re ste ue pe) (s, d)))
         = (if \<not> truthy (error_message ue)
               \<and> 0 < pointsEarned_loop (recommendations_get re ste (user_id u) d) (recommendations s) 0
               \<and> pe = None
            then (user_points d)(user_id u \<mapsto> points u
                   + pointsEarned_loop (recommendations_get re ste (user_id u) d) (recommendations s) 0)
            else user_points d)"
proof -
  have unchanged: "\<not> earns_points a \<longrightarrow> user_points (snd (step a (s, d))) = user_points d"
    using step_ledger_unchanged [OF assms, of a d] by simp
  show ?thesis
    by (intro conjI)
      (rule step_user [OF assms] step_ledger_write [OF assms] unchanged run_user [OF assms]
         step_session_exact [OF assms] step_ledger_exact [OF assms])+
qed

theorem session_points_never_decrease_witness:
  "cur_user example_page = Some example_user
   \<and> \<not> earns_points (ToggleCompletion 1)
   \<and> map_option points
        (cur_user (fst (step (GameEnd None None Clicker 7) (example_page, example_db)))) = Some 10
   \<and> user_points (snd (step (GameEnd None None Clicker 7) (example_page, example_db))) ''u1''
       = Some 10
   \<and> map_option points
        (cur_user (fst (step (SaveChanges None None None None) (example_page, example_db)))) = Some 8
   \<and> user_points (snd (step (SaveChanges None None None None) (example_page, example_db))) ''u1''
       = Some 8
   \<and> map_option points
        (cur_user (fst (run [GameEnd None None Clicker 7, ToggleCompletion 1]
                          (example_page, example_db)))) = Some 10"
proof -
  have u: "cur_user example_page = Some example_user"
    by (simp add: example_page_def)
  have uid: "user_id example_user = ''u1''" "points example_user = 0"
    by (simp_all add: example_user_def)
  have acc: "pointsEarned_loop (recommendations_get None None ''u1'' example_db)
               (recommendations example_page) 0 = 8"
    using example_accrual by (simp add: example_page_def)
  have g: "handleGameEnd None None Clicker 7 (example_page, example_db)
             = (example_page\<lparr>cur_user := Some (example_user\<lparr>points := 10\<rparr>)\<rparr>,
                snd (updatePoints None ''u1'' 10 (snd (saveSession None ''u1'' Clicker 7 example_db))))"
    using handleGameEnd_result [OF u, of None None Clicker 7 example_db]
    by (simp add: uid)
  have r: "map_option points
        (cur_user (fst (run [GameEnd None None Clicker 7, ToggleCompletion 1]
                          (example_page, example_db)))) = Some 10"
    by (simp add: g run_def handleToggleCompletion_def)
  have t: "\<not> earns_points (ToggleCompletion 1)"
    by (simp add: earns_points_def)
  note th = session_points_never_decrease
      [OF u, where a = "GameEnd None None Clicker 7" and d = example_db
         and acts = "[GameEnd None None Clicker 7, ToggleCompletion 1]"
         and se = None and pe = None and g = Clicker and sc = 7 and now = 1000
         and re = None and ste = None and ue = None]
  from th have g1: "cur_user (fst (step (GameEnd None None Clicker 7) (example_page, example_db)))
                      = Some (example_user\<lparr>points := 10\<rparr>)"
    by (simp add: uid)
  from th have g2: "user_points (snd (step (GameEnd None None Clicker 7) (example_page, example_db)))
                      = (user_points example_db)(''u1'' \<mapsto> 10)"
    by (simp add: uid)
  from th have s1: "cur_user (fst (step (SaveChanges None None None None) (example_page, example_db)))
                      = Some (example_user\<lparr>points := 8\<rparr>)"
    by (simp add: uid acc no_error_not_truthy)
  from th have s2: "user_points (snd (step (SaveChanges None None None None) (example_page, example_db)))
                      = (user_points example_db)(''u1'' \<mapsto> 8)"
    by (simp add: uid acc no_error_not_truthy)
  show ?thesis
    unfolding g1 g2 s1 s2 using u t r by simp
qed

text \<open>
  C9, as stated, fails: the stored value can fall. The ledger holds 40 for the user; at
  login the read of the ledger row is answered with an error, so the profile is loaded with
  0 points; a game end in that session then writes 10 over the 40.
\<close>

theorem stored_points_decrease_counterexample:
  "profile_user
      (getFullUserProfile (Inr example_users_row) \<lparr>data = None, error = None\<rparr>
         (select_points_single (user_points (example_db\<lparr>user_points := [''u1'' \<mapsto> 40]\<rparr>)) ''u1''
            (Some (PgError (Some ''timeout'')))))
     = Some example_user
   \<and> cur_user example_page = Some example_user
   \<and> points example_user = 0
   \<and> user_points (example_db\<lparr>user_points := [''u1'' \<mapsto> 40]\<rparr>) ''u1'' = Some 40
   \<and> user_points (snd (handleGameEnd None None Clicker 7
                          (example_page, example_db\<lparr>user_points := [''u1'' \<mapsto> 40]\<rparr>))) ''u1''
       = Some 10"
  by (simp add: getFullUserProfile_def getPoints_def select_points_single_def toCamelCase_user_def
      example_users_row_def example_user_def example_page_def
      handleGameEnd_def updatePoints_def saveSession_def updateUser_def Let_def)
subsection \<open>Generating goals\<close>

lemma insert_rows_ids: "map rec_id (insert_rows uid n gs) = [n ..< n + length gs]"
proof (induction gs arbitrary: n)
  case Nil
  then show ?case by simp
next
  case (Cons g gs)
  have "[n ..< n + length (g # gs)] = n # [Suc n ..< n + length (g # gs)]"
    by (rule upt_conv_Cons) simp
  moreover have "map rec_id (insert_rows uid n (g # gs)) = n # [Suc n ..< Suc n + length gs]"
    using Cons.IH [of "Suc n"] by simp
  ultimately show ?case by simp
qed

lemma insert_rows_user: "r \<in> set (insert_rows uid n gs) \<Longrightarrow> userId r = uid"
  by (induction gs arbitrary: n) auto

lemma insert_rows_fields:
  "map (\<lambda>r. (goal r, category r, difficulty r)) (insert_rows uid n gs)
     = map (\<lambda>g. (goal g, category g, difficulty g)) gs"
  by (induction gs arbitrary: n) simp_all

lemma filter_insert_rows_same: "filter (\<lambda>r. userId r = uid) (insert_rows uid n gs) = insert_rows uid n gs"
  by (rule filter_True) (simp add: insert_rows_user)

lemma filter_insert_rows_other: "filter (\<lambda>r. userId r \<noteq> uid) (insert_rows uid n gs) = []"
  by (simp add: filter_empty_conv insert_rows_user)

lemma recommendations_create_ok:
  "recommendations_create None None uid gs d
     = ((map (to_recommendation False) (insert_rows uid (rec_id_seq d) gs), None),
        d\<lparr>recommendations_tbl :=
             filter (\<lambda>r. userId r \<noteq> uid) (recommendations_tbl d) @ insert_rows uid (rec_id_seq d) gs,
           rec_id_seq := rec_id_seq d + length gs\<rparr>)"
  by (simp add: recommendations_create_def Let_def)

lemma handleGenerateGoals_ok:
  assumes "cur_user s = Some u" and "canGenerate s" and "fetchHealthGoalsFromN8n response \<noteq> []"
  shows "handleGenerateGoals now response None None (s, d)
     = (s\<lparr>message := ''New goals have been generated!'',
          recommendations :=
            map (to_recommendation False)
              (insert_rows (user_id u) (rec_id_seq d) (fetchHealthGoalsFromN8n response)),
          lastGoalGen := (lastGoalGen s)(user_id u \<mapsto> now),
          canGenerate := False\<rparr>,
        d\<lparr>recommendations_tbl :=
             filter (\<lambda>r. userId r \<noteq> user_id u) (recommendations_tbl d)
               @ insert_rows (user_id u) (rec_id_seq d) (fetchHealthGoalsFromN8n response),
           rec_id_seq := rec_id_seq d + length (fetchHealthGoalsFromN8n response)\<rparr>)"
  using assms
  by (simp add: handleGenerateGoals_def recommendations_create_ok truthy_def Let_def)

lemma rec_id_to_recommendation: "rec_id (to_recommendation b r) = rec_id r"
  by (simp add: to_recommendation_def)

lemma insert_rows_id_range:
  assumes "r \<in> set (insert_rows uid n gs)"
  shows "n \<le> rec_id r \<and> rec_id r < n + length gs"
proof -
  from assms have "rec_id r \<in> set (map rec_id (insert_rows uid n gs))"
    by (simp only: set_map) (rule imageI)
  then have "rec_id r \<in> set [n ..< n + length gs]"
    by (simp only: insert_rows_ids)
  then show ?thesis by simp
qed

lemma generated_ids_fresh:
  assumes "db_wf d"
  shows "rec_id ` set (insert_rows uid (rec_id_seq d) gs) \<inter> rec_id ` set (recommendations_tbl d) = {}"
proof -
  have False
    if a: "r \<in> set (insert_rows uid (rec_id_seq d) gs)" and b: "p \<in> set (recommendations_tbl d)"
      and eq: "rec_id r = rec_id p" for r p
  proof -
    from a have "rec_id_seq d \<le> rec_id r" by (simp add: insert_rows_id_range)
    moreover from b assms have "rec_id p < rec_id_seq d" by (simp add: db_wf_def)
    ultimately show False using eq by simp
  qed
  then show ?thesis by blast
qed

lemma generated_status_absent:
  assumes "db_wf d" and "r \<in> set (insert_rows uid (rec_id_seq d) gs)"
  shows "recommendation_status d (v, rec_id r) = None"
proof (rule ccontr)
  assume "recommendation_status d (v, rec_id r) \<noteq> None"
  then have "(v, rec_id r) \<in> dom (recommendation_status d)" by (simp add: dom_def)
  moreover from assms(1) have "\<forall>k \<in> dom (recommendation_status d). snd k < rec_id_seq d"
    by (simp add: db_wf_def)
  ultimately have "snd (v, rec_id r) < rec_id_seq d" by blast
  then have "rec_id r < rec_id_seq d" by simp
  moreover have "rec_id_seq d \<le> rec_id r"
    using assms(2) by (simp add: insert_rows_id_range)
  ultimately show False by simp
qed

lemma db_wf_create:
  assumes "db_wf d"
  shows "db_wf (d\<lparr>recommendations_tbl :=
             filter (\<lambda>r. userId r \<noteq> uid) (recommendations_tbl d) @ insert_rows uid (rec_id_seq d) gs,
           rec_id_seq := rec_id_seq d + length gs\<rparr>)"
proof -
  have fresh: "rec_id ` set (insert_rows uid (rec_id_seq d) gs) \<inter> rec_id ` set (recommendations_tbl d) = {}"
    using assms by (rule generated_ids_fresh)
  have d1: "distinct (map rec_id (filter (\<lambda>r. userId r \<noteq> uid) (recommendations_tbl d)))"
    using assms by (simp add: db_wf_def distinct_map_filter)
  have d2: "distinct (map rec_id (insert_rows uid (rec_id_seq d) gs))"
    by (simp add: insert_rows_ids)
  have new_lt: "\<forall>r \<in> set (insert_rows uid (rec_id_seq d) gs). rec_id r < rec_id_seq d + length gs"
  proof
    fix r assume "r \<in> set (insert_rows uid (rec_id_seq d) gs)"
    then show "rec_id r < rec_id_seq d + length gs" by (simp add: insert_rows_id_range)
  qed
  have old_lt: "\<forall>r \<in> set (recommendations_tbl d). rec_id r < rec_id_seq d + length gs"
    using assms by (auto simp: db_wf_def intro: trans_less_add1)
  have st: "\<forall>k \<in> dom (recommendation_status d). snd k < rec_id_seq d + length gs"
    using assms by (auto simp: db_wf_def intro: trans_less_add1)
  from fresh d1 d2 new_lt old_lt st show ?thesis
    by (auto simp: db_wf_def)
qed

lemma recommendations_get_generated:
  assumes "db_wf d"
  shows "recommendations_get None None uid
           (d\<lparr>recommendations_tbl :=
                filter (\<lambda>r. userId r \<noteq> uid) (recommendations_tbl d) @ insert_rows uid (rec_id_seq d) gs,
              rec_id_seq := rec_id_seq d + length gs\<rparr>)
         = map (to_recommendation False) (insert_rows uid (rec_id_seq d) gs)"
proof -
  have "map (\<lambda>r. to_recommendation
                 (case recommendation_status d (uid, rec_id r) of Some b \<Rightarrow> b | None \<Rightarrow> False) r)
          (insert_rows uid (rec_id_seq d) gs)
        = map (to_recommendation False) (insert_rows uid (rec_id_seq d) gs)"
    by (rule map_cong) (simp_all add: generated_status_absent [OF assms])
  then show ?thesis
    by (simp add: recommendations_get_def filter_insert_rows_same)
qed

text \<open>
  C5. A successful generation (a logged-in user who may generate, a webhook answer with
  at least one parsed goal, delete and insert both answered without error) on a store whose
  ids are unique and below the sequence: afterwards the user's rows are exactly the inserted
  batch, one row per parsed goal with its text, category and difficulty, and the rows of other
  users are untouched; the page shows that batch; its ids are disjoint from every id stored
  before; every new recommendation is incomplete and has no status row, and a re-read by
  \<open>recommendations.get\<close> returns the same incomplete batch. The store keeps its invariant.
\<close>

theorem generate_replaces_recommendations:
  assumes "cur_user s = Some u" and "canGenerate s"
    and "fetchHealthGoalsFromN8n response = newGoals" and "newGoals \<noteq> []"
    and "db_wf d"
    and "handleGenerateGoals now response None None (s, d) = (s', d')"
  shows "filter (\<lambda>r. userId r = user_id u) (recommendations_tbl d')
           = insert_rows (user_id u) (rec_id_seq d) newGoals
     \<and> filter (\<lambda>r. userId r \<noteq> user_id u) (recommendations_tbl d')
           = filter (\<lambda>r. userId r \<noteq> user_id u) (recommendations_tbl d)
     \<and> recommendations s' = map (to_recommendation False) (insert_rows (user_id u) (rec_id_seq d) newGoals)
     \<and> map (\<lambda>r. (goal r, category r, difficulty r)) (recommendations s')
           = map (\<lambda>g. (goal g, category g, difficulty g)) newGoals
     \<and> rec_id ` set (recommendations s') \<inter> rec_id ` set (recommendations_tbl d) = {}
     \<and> (\<forall>r \<in> set (recommendations s').
            \<not> isCompleted r \<and> recommendation_status d' (user_id u, rec_id r) = None)
     \<and> recommendations_get None None (user_id u) d' = recommendations s'
     \<and> db_wf d'"
proof -
  let ?rows = "insert_rows (user_id u) (rec_id_seq d) newGoals"
  from assms(3,4) have ne: "fetchHealthGoalsFromN8n response \<noteq> []" by simp
  from handleGenerateGoals_ok [OF assms(1,2) ne, where now = now and d = d] assms(3,6)
  have s': "s' = s\<lparr>message := ''New goals have been generated!'',
                     recommendations := map (to_recommendation False) ?rows,
                     lastGoalGen := (lastGoalGen s)(user_id u \<mapsto> now),
                     canGenerate := False\<rparr>"
    and d': "d' = d\<lparr>recommendations_tbl :=
                      filter (\<lambda>r. userId r \<noteq> user_id u) (recommendations_tbl d) @ ?rows,
                    rec_id_seq := rec_id_seq d + length newGoals\<rparr>"
    by simp_all
  have recs: "recommendations s' = map (to_recommendation False) ?rows"
    by (simp add: s')
  have c1: "filter (\<lambda>r. userId r = user_id u) (recommendations_tbl d') = ?rows"
    by (simp add: d' filter_insert_rows_same)
  have c2: "filter (\<lambda>r. userId r \<noteq> user_id u) (recommendations_tbl d')
              = filter (\<lambda>r. userId r \<noteq> user_id u) (recommendations_tbl d)"
    by (simp add: d' filter_insert_rows_other)
  have c4: "map (\<lambda>r. (goal r, category r, difficulty r)) (recommendations s')
              = map (\<lambda>g. (goal g, category g, difficulty g)) newGoals"
    using insert_rows_fields [where uid = "user_id u" and n = "rec_id_seq d" and gs = newGoals]
    by (simp add: recs to_recommendation_def comp_def)
  have ids: "rec_id ` set (recommendations s') = rec_id ` set ?rows"
    by (simp add: recs image_image rec_id_to_recommendation)
  have c5: "rec_id ` set (recommendations s') \<inter> rec_id ` set (recommendations_tbl d) = {}"
    using generated_ids_fresh [OF assms(5), where uid = "user_id u" and gs = newGoals] by (simp only: ids)
  have c6: "\<forall>r \<in> set (recommendations s').
              \<not> isCompleted r \<and> recommendation_status d' (user_id u, rec_id r) = None"
  proof
    fix r assume "r \<in> set (recommendations s')"
    then obtain q where q: "q \<in> set ?rows" "r = to_recommendation False q"
      by (auto simp: recs)
    have "recommendation_status d (user_id u, rec_id q) = None"
      using assms(5) q(1) by (rule generated_status_absent)
    with q(2) show "\<not> isCompleted r \<and> recommendation_status d' (user_id u, rec_id r) = None"
      by (simp add: d' to_recommendation_def)
  qed
  have c7: "recommendations_get None None (user_id u) d' = recommendations s'"
    using recommendations_get_generated [OF assms(5), where uid = "user_id u" and gs = newGoals]
    by (simp only: d' recs)
  have c8: "db_wf d'"
    using db_wf_create [OF assms(5), where uid = "user_id u" and gs = newGoals] by (simp only: d')
  from c1 c2 recs c4 c5 c6 c7 c8 show ?thesis by blast
qed

lemma example_response_goals:
  "fetchHealthGoalsFromN8n example_response
     = [\<lparr>goal = ''Walk 10k'', category = Exercise, difficulty = Hard\<rparr>]"
  by code_simp

lemma example_db_wf: "db_wf example_db"
  by (simp add: db_wf_def example_db_def)

theorem generate_replaces_recommendations_witness:
  "cur_user example_page = Some example_user
   \<and> canGenerate example_page
   \<and> db_wf example_db
   \<and> fetchHealthGoalsFromN8n example_response
       = [\<lparr>goal = ''Walk 10k'', category = Exercise, difficulty = Hard\<rparr>]
   \<and> map rec_id (recommendations_tbl example_db) = [1, 2]
   \<and> recommendations (fst (handleGenerateGoals 1000 example_response None None (example_page, example_db)))
       = [\<lparr>goal = ''Walk 10k'', category = Exercise, difficulty = Hard, rec_id = 3, userId = ''u1'',
            isCompleted = False\<rparr>]
   \<and> filter (\<lambda>r. userId r = ''u1'')
        (recommendations_tbl
           (snd (handleGenerateGoals 1000 example_response None None (example_page, example_db))))
       = [\<lparr>goal = ''Walk 10k'', category = Exercise, difficulty = Hard, rec_id = 3, userId = ''u1''\<rparr>]"
proof -
  have u: "cur_user example_page = Some example_user" and g: "canGenerate example_page"
    by (simp_all add: example_page_def)
  have ne: "[\<lparr>goal = ''Walk 10k'', category = Exercise, difficulty = Hard\<rparr>] \<noteq> []"
    by simp
  have pair: "handleGenerateGoals 1000 example_response None None (example_page, example_db)
        = (fst (handleGenerateGoals 1000 example_response None None (example_page, example_db)),
           snd (handleGenerateGoals 1000 example_response None None (example_page, example_db)))"
    by simp
  have seq: "rec_id_seq example_db = 3" and ids: "map rec_id (recommendations_tbl example_db) = [1, 2]"
    by (simp_all add: example_db_def)
  have uid: "user_id example_user = ''u1''"
    by (simp add: example_user_def)
  show ?thesis
    using generate_replaces_recommendations [OF u g example_response_goals ne example_db_wf pair]
    by (simp add: u g example_db_wf example_response_goals seq ids uid to_recommendation_def)
qed

subsection \<open>Parsing the goals of the webhook\<close>

lemma split_on_nonempty: "split_on c s \<noteq> []"
  by (induction s) (simp_all split: list.split)

lemma length_split_on: "length (split_on c s) = Suc (count_list s c)"
proof (induction s)
  case Nil
  then show ?case by simp
next
  case (Cons x xs)
  show ?case
  proof (cases "x = c")
    case True
    with Cons show ?thesis by simp
  next
    case False
    obtain p ps where "split_on c xs = p # ps"
      using split_on_nonempty [of c xs] by (cases "split_on c xs") simp_all
    with False Cons show ?thesis by simp
  qed
qed

lemma valid_category_converts: "c \<in> set validCategories \<Longrightarrow> category_of_string (trim c) \<noteq> None"
  by (auto simp: validCategories_def category_of_string_def trim_def is_ws_def)

lemma valid_difficulty_converts: "d \<in> set validDifficulties \<Longrightarrow> difficulty_of_string (trim d) \<noteq> None"
  by (auto simp: validDifficulties_def difficulty_of_string_def trim_def is_ws_def)

lemma parse_line_three_parts:
  assumes "split_on CHR '';'' line = [g, c, d]"
  shows "parse_line line = None \<longleftrightarrow> (c \<notin> set validCategories \<or> d \<notin> set validDifficulties)"
proof (cases "c \<notin> set validCategories \<or> d \<notin> set validDifficulties")
  case True
  with assms show ?thesis by (simp add: parse_line_def)
next
  case False
  then obtain c' d' where "category_of_string (trim c) = Some c'" "difficulty_of_string (trim d) = Some d'"
    using valid_category_converts [of c] valid_difficulty_converts [of d] by auto
  with False assms show ?thesis by (simp add: parse_line_def)
qed

lemma parse_line_other_parts:
  assumes "length (split_on CHR '';'' line) \<noteq> 3"
  shows "parse_line line = None"
  using assms by (auto simp: parse_line_def split: list.split)

lemma length_three: "length xs = 3 \<longleftrightarrow> (\<exists>a b c. xs = [a, b, c])"
  by (cases xs; cases "tl xs"; cases "tl (tl xs)") auto

lemma parse_line_None_iff:
  "parse_line line = None \<longleftrightarrow>
     (count_list line CHR '';'' \<noteq> 2
      \<or> (\<exists>g c d. split_on CHR '';'' line = [g, c, d]
            \<and> (c \<notin> set validCategories \<or> d \<notin> set validDifficulties)))"
proof (cases "length (split_on CHR '';'' line) = 3")
  case True
  then obtain g c d where parts: "split_on CHR '';'' line = [g, c, d]"
    by (auto simp: length_three)
  from True have "count_list line CHR '';'' = 2"
    by (simp add: length_split_on)
  with parts parse_line_three_parts [OF parts] show ?thesis by simp
next
  case False
  then have "count_list line CHR '';'' \<noteq> 2"
    by (simp add: length_split_on)
  with False parse_line_other_parts [OF False] show ?thesis by simp
qed

lemma fetch_goals_response:
  "fetchHealthGoalsFromN8n (HttpResponse status body)
     = (if response_ok status then List.map_filter parse_line (goal_lines body) else [])"
  by (simp add: fetchHealthGoalsFromN8n_def fetch_goals_try_def parse_goals_def Let_def)

lemma parse_goals_throws:
  "List.map_filter parse_line (goal_lines body) = [] \<Longrightarrow> goal_lines body \<noteq> [] \<Longrightarrow>
   parse_goals body = Inl ''Failed to parse any goals from n8n response.''"
  by (simp add: parse_goals_def Let_def)

lemma parse_goals_returns:
  "List.map_filter parse_line (goal_lines body) \<noteq> [] \<Longrightarrow>
   parse_goals body = Inr (List.map_filter parse_line (goal_lines body))"
  by (simp add: parse_goals_def Let_def)

lemma handleGenerateGoals_no_goals:
  assumes "fetchHealthGoalsFromN8n response = []"
  shows "snd (handleGenerateGoals now response de ie (s, d)) = d
     \<and> recommendations (fst (handleGenerateGoals now response de ie (s, d))) = recommendations s
     \<and> canGenerate (fst (handleGenerateGoals now response de ie (s, d))) = canGenerate s
     \<and> (cur_user s \<noteq> None \<and> canGenerate s \<longrightarrow>
          message (fst (handleGenerateGoals now response de ie (s, d)))
            = ''Could not generate new goals from the service. Please try again later.'')"
  using assms by (simp add: handleGenerateGoals_def Let_def split: option.split)

text \<open>
  C6. A line is dropped (the callback returns \<open>null\<close>) exactly when it does not have two
  semicolons, or has them and its category or its difficulty is outside the fixed lists.
  The lines that are not dropped are returned: for a response with a success status the
  result is the list of the parsed surviving lines, and dropping raises nothing as long as
  one line survives. When no line survives of a response that has lines, the parser throws,
  the \<open>catch\<close> returns the empty list, and \<open>handleGenerateGoals\<close> reports that no goals
  could be generated and writes nothing: the store and the shown recommendations are as before.
\<close>

theorem malformed_goal_lines_are_dropped:
  "(parse_line line = None \<longleftrightarrow>
      (count_list line CHR '';'' \<noteq> 2
       \<or> (\<exists>g c d. split_on CHR '';'' line = [g, c, d]
             \<and> (c \<notin> set validCategories \<or> d \<notin> set validDifficulties))))
   \<and> fetchHealthGoalsFromN8n (HttpResponse status body)
       = (if response_ok status then List.map_filter parse_line (goal_lines body) else [])
   \<and> (List.map_filter parse_line (goal_lines body) \<noteq> [] \<longrightarrow>
        parse_goals body = Inr (List.map_filter parse_line (goal_lines body)))
   \<and> (List.map_filter parse_line (goal_lines body) = [] \<and> goal_lines body \<noteq> [] \<longrightarrow>
        parse_goals body = Inl ''Failed to parse any goals from n8n response.'')
   \<and> (List.map_filter parse_line (goal_lines body) = [] \<longrightarrow>
        snd (handleGenerateGoals now (HttpResponse status body) de ie (s, d)) = d
        \<and> recommendations (fst (handleGenerateGoals now (HttpResponse status body) de ie (s, d)))
            = recommendations s
        \<and> (cur_user s \<noteq> None \<and> canGenerate s \<longrightarrow>
             message (fst (handleGenerateGoals now (HttpResponse status body) de ie (s, d)))
               = ''Could not generate new goals from the service. Please try again later.''))"
proof -
  have "fetchHealthGoalsFromN8n (HttpResponse status body) = []"
    if "List.map_filter parse_line (goal_lines body) = []"
    using that by (simp add: fetch_goals_response)
  then show ?thesis
    using parse_line_None_iff [of line] fetch_goals_response [of status body]
      parse_goals_returns [of body] parse_goals_throws [of body]
      handleGenerateGoals_no_goals [of "HttpResponse status body" now de ie s d]
    by blast
qed

theorem malformed_goal_lines_are_dropped_witness:
  "parse_line ''Run;BadCategory;Easy'' = None
   \<and> count_list ''Run;BadCategory;Easy'' CHR '';'' = 2
   \<and> fetchHealthGoalsFromN8n example_response
       = [\<lparr>goal = ''Walk 10k'', category = Exercise, difficulty = Hard\<rparr>]
   \<and> goal_lines ''Do yoga\<newline>Run;BadCategory;Easy'' = [''Do yoga'', ''Run;BadCategory;Easy'']
   \<and> parse_goals ''Do yoga\<newline>Run;BadCategory;Easy''
       = Inl ''Failed to parse any goals from n8n response.''
   \<and> snd (handleGenerateGoals 1000 example_bad_response None None (example_page, example_db))
       = example_db
   \<and> message (fst (handleGenerateGoals 1000 example_bad_response None None (example_page, example_db)))
       = ''Could not generate new goals from the service. Please try again later.''"
proof -
  have parts: "split_on CHR '';'' ''Run;BadCategory;Easy'' = [''Run'', ''BadCategory'', ''Easy'']"
    by code_simp
  have bad: "''BadCategory'' \<notin> set validCategories"
    by (simp add: validCategories_def)
  have cnt: "count_list ''Run;BadCategory;Easy'' CHR '';'' = 2"
    by simp
  have lines: "goal_lines ''Do yoga\<newline>Run;BadCategory;Easy'' = [''Do yoga'', ''Run;BadCategory;Easy'']"
    by code_simp
  have none: "List.map_filter parse_line [''Do yoga'', ''Run;BadCategory;Easy''] = []"
    by code_simp
  have good: "fetchHealthGoalsFromN8n example_response
                = [\<lparr>goal = ''Walk 10k'', category = Exercise, difficulty = Hard\<rparr>]"
    by code_simp
  have u: "cur_user example_page = Some example_user" "canGenerate example_page"
    by (simp_all add: example_page_def)
  have r: "example_bad_response = HttpResponse 200 ''Do yoga\<newline>Run;BadCategory;Easy''"
    by (simp add: example_bad_response_def)
  note T = malformed_goal_lines_are_dropped
      [where line = "''Run;BadCategory;Easy''" and status = 200
         and body = "''Do yoga\<newline>Run;BadCategory;Easy''" and now = 1000 and de = None
         and ie = None and s = example_page and d = example_db]
  have mf: "List.map_filter parse_line (goal_lines ''Do yoga\<newline>Run;BadCategory;Easy'') = []"
    by (simp only: lines none)
  have gl: "goal_lines ''Do yoga\<newline>Run;BadCategory;Easy'' \<noteq> []"
    by (simp only: lines) simp
  have c1: "parse_line ''Run;BadCategory;Easy'' = None"
    using T parts bad by blast
  have c5: "parse_goals ''Do yoga\<newline>Run;BadCategory;Easy''
              = Inl ''Failed to parse any goals from n8n response.''"
    using T mf gl by blast
  have ul: "cur_user example_page \<noteq> None \<and> canGenerate example_page"
    using u by simp
  have c6: "snd (handleGenerateGoals 1000 example_bad_response None None (example_page, example_db))
              = example_db"
    unfolding r using T mf by blast
  have c7: "message (fst (handleGenerateGoals 1000 example_bad_response None None (example_page, example_db)))
              = ''Could not generate new goals from the service. Please try again later.''"
    unfolding r using T mf ul by blast
  from c1 cnt good lines c5 c6 c7 show ?thesis by blast
qed

subsection \<open>The scanners of \<open>parseFloat\<close> read the decimal literals\<close>




































subsection \<open>Submitting the daily metrics\<close>






















lemma daily_metrics_updatePoints: "daily_metrics (snd (updatePoints pe uid v d)) = daily_metrics d"
  by (simp add: updatePoints_def split: option.split)

lemma daily_metrics_metrics_save:
  "daily_metrics (snd (metrics_save None now uid m d))
     = daily_metrics d @
         [\<lparr>row_fields = stored_fields (metrics_payload uid m), created_at = now\<rparr>]"
  by (simp add: metrics_save_def)

lemma binary64_overflow_large: "2 ^ 64 \<le> binary64_overflow"
proof -
  have "(2::rat) ^ 1024 = 2 ^ 970 * 2 ^ 54"
    by (simp only: power_add [symmetric]) simp
  then have "binary64_overflow = 2 ^ 970 * (2 ^ 54 - 1)"
    by (simp only: binary64_overflow_def right_diff_distrib mult_1_right)
  moreover have "(2::rat) ^ 64 * 1 \<le> 2 ^ 970 * (2 ^ 54 - 1)"
    by (rule mult_mono) simp_all
  ultimately show ?thesis by simp
qed

lemma to_number_small: "q < 2 ^ 64 \<Longrightarrow> to_number q = Fin q"
  using binary64_overflow_large by (simp add: to_number_def)


lemma example_parse: "parseFloat ''72'' = Fin 72"
  by (simp add: parseFloat_def literal_prefix_def unsigned_prefix_def scan_exponent_def
      is_ws_def is_digit_def digits_val_def digit_val_def pow10_def to_number_small Let_def)


lemma example_metricsToSave: "metricsToSave (metrics example_page) = [(''heartRate'', Fin 72)]"
  by (simp add: example_page_def metricsToSave_def metrics_step_def isNaN_def trim_def is_ws_def
      example_parse Let_def)

lemma example_payload:
  "stored_fields (metrics_payload ''u1'' [(''heartRate'', Fin 72)])
     = [(''user_id'', JsonString ''u1''), (''heart_rate'', JsonNumber 72)]"
  by code_simp


subsection \<open>Submission status of the day\<close>

lemma select_metrics_head_no_rows: "data (select_metrics_head err uid since d) = None"
  by (simp add: select_metrics_head_def split: option.split)

lemma hasSubmittedToday_undefined_count: "hasSubmittedToday None err now uid d = False"
  by (simp add: hasSubmittedToday_def hasSubmittedToday_result_def select_metrics_head_no_rows)

lemma checkSubmissionStatus_reads_only: "snd (checkSubmissionStatus rpc_count err now (s, d)) = d"
  by (simp add: checkSubmissionStatus_def split: option.split)

lemma example_submitted:
  "daily_metrics (snd (handleMetricsSubmit None None 1000 (example_page, example_db)))
     = [\<lparr>row_fields = [(''user_id'', JsonString ''u1''), (''heart_rate'', JsonNumber 72)],
         created_at = 1000\<rparr>]"
proof -
  have u: "cur_user example_page = Some example_user"
    by (simp add: example_page_def)
  show ?thesis
    by (simp add: handleMetricsSubmit_saved [OF u] daily_metrics_updatePoints
        daily_metrics_metrics_save example_metricsToSave example_payload
        example_user_def example_db_def)
qed

text \<open>
  C1, at a failing input. A user with no record submits the metrics at time 1000 and the
  insert succeeds. The store then holds a record of this user created on the current day,
  and the HEAD request counts it; \<open>hasSubmittedToday\<close>, which reads the rows of the
  response (there are none in the answer to a HEAD request) and the property \<open>count\<close> of
  the client's method \<open>rpc\<close> (undefined) instead of the \<open>count\<close> of the response, still
  answers false. It does so in every store: it never answers true. The call itself writes
  nothing.
\<close>

theorem hasSubmittedToday_false_after_submit:
  "count (select_metrics_head None ''u1'' (start_of_day 1000)
            (snd (handleMetricsSubmit None None 1000 (example_page, example_db)))) = Some 1
   \<and> hasSubmittedToday None None 1000 ''u1''
         (snd (handleMetricsSubmit None None 1000 (example_page, example_db))) = False
   \<and> hasSubmittedToday None None 1000 ''u1'' example_db = False"
  by (simp add: hasSubmittedToday_undefined_count select_metrics_head_def example_submitted
      start_of_day_def)

end
